theory Spec2Isabelle
  imports Complex_Main "HOL-Library.Word" "HOL-Library.Multiset"
begin

section \<open>The C type \<open>double\<close>\<close>

text \<open>
  The program is built with gcc for a PostgreSQL client host (first line of
  \<^verbatim>\<open>program.c\<close>), where \<open>double\<close> is the IEEE 754 binary64 format and every
  arithmetic operation rounds its exact result to the nearest representable value, ties
  to the even significand. A finite double is kept as sign, significand and exponent:
  \<open>Finite s m e\<close> stands for \<open>(-1)\<^sup>s * m * 2\<^sup>e\<close> with \<open>m < 2\<^sup>5\<^sup>3\<close> and
  \<open>-1074 \<le> e \<le> 971\<close>; the significand is at least \<open>2\<^sup>5\<^sup>2\<close> unless the exponent is
  the smallest one, so that every value has one representation, and zero keeps its sign.
  A NaN keeps its sign bit, which \<open>printf\<close> shows, and not its payload.
\<close>

datatype double = Finite bool nat int | Infinity bool | NaN bool

fun bit_length :: "nat \<Rightarrow> nat" where
  "bit_length n = (if n = 0 then 0 else Suc (bit_length (n div 2)))"

declare bit_length.simps [simp del]

text \<open>The quotient \<open>num / den\<close> rounded to the nearest natural number, ties to even.\<close>

definition round_half_even :: "nat \<Rightarrow> nat \<Rightarrow> nat" where
  "round_half_even num den =
     (let q = num div den; r = num mod den
      in if den < 2 * r \<or> (2 * r = den \<and> odd q) then q + 1 else q)"

text \<open>
  \<open>round_ratio s p q\<close> is the double nearest to \<open>(-1)\<^sup>s * p / q\<close> (for \<open>q > 0\<close>):
  \<open>e\<close> is the binary exponent of the quotient, \<open>x\<close> the exponent of the last kept bit
  (not below that of the subnormal numbers), and a result beyond the largest finite
  double overflows to an infinity.
\<close>

definition round_ratio :: "bool \<Rightarrow> nat \<Rightarrow> nat \<Rightarrow> double" where
  "round_ratio s p q =
     (if p = 0 then Finite s 0 (- 1074)
      else
        let d = int (bit_length p) - int (bit_length q);
            e = (if q * 2 ^ nat d \<le> p * 2 ^ nat (- d) then d else d - 1);
            x = max (e - 52) (- 1074);
            m = round_half_even (p * 2 ^ nat (- x)) (q * 2 ^ nat x)
        in if m = 2 ^ 53
           then (if 971 < x + 1 then Infinity s else Finite s (2 ^ 52) (x + 1))
           else (if 971 < x then Infinity s else Finite s m x))"

text \<open>The double nearest to \<open>(-1)\<^sup>s * m * 2\<^sup>e\<close>.\<close>

definition round_dyadic :: "bool \<Rightarrow> nat \<Rightarrow> int \<Rightarrow> double" where
  "round_dyadic s m e =
     (if 0 \<le> e then round_ratio s (m * 2 ^ nat e) 1 else round_ratio s m (2 ^ nat (- e)))"

text \<open>Conversion of a C \<open>int\<close> to \<open>double\<close>, and the decimal constants of the source.\<close>

definition double_of_int :: "int \<Rightarrow> double" where
  "double_of_int i = round_ratio (i < 0) (nat \<bar>i\<bar>) 1"

definition d_0_0 :: double where
  "d_0_0 = Finite False 0 (- 1074)"

definition d_0_24 :: double where
  "d_0_24 = round_ratio False 24 100"

definition d_0_18 :: double where
  "d_0_18 = round_ratio False 18 100"

definition d_0_14 :: double where
  "d_0_14 = round_ratio False 14 100"

text \<open>
  Multiplication and addition of doubles (the C operators \<open>*\<close> and \<open>+\<close>). A NaN operand
  is passed on with its sign, the first one when both operands are NaN; an invalid
  operation (zero times an infinity, the sum of opposite infinities) gives the default
  NaN of the x86-64, whose sign bit is set.
\<close>

fun fmul :: "double \<Rightarrow> double \<Rightarrow> double" where
  "fmul (NaN s) _ = NaN s"
| "fmul _ (NaN t) = NaN t"
| "fmul (Infinity s) (Infinity t) = Infinity (s \<noteq> t)"
| "fmul (Infinity s) (Finite t n f) = (if n = 0 then NaN True else Infinity (s \<noteq> t))"
| "fmul (Finite s m e) (Infinity t) = (if m = 0 then NaN True else Infinity (s \<noteq> t))"
| "fmul (Finite s m e) (Finite t n f) = round_dyadic (s \<noteq> t) (m * n) (e + f)"

definition with_sign :: "bool \<Rightarrow> int \<Rightarrow> int" where
  "with_sign s i = (if s then - i else i)"

fun fadd :: "double \<Rightarrow> double \<Rightarrow> double" where
  "fadd (NaN s) _ = NaN s"
| "fadd _ (NaN t) = NaN t"
| "fadd (Infinity s) (Infinity t) = (if s = t then Infinity s else NaN True)"
| "fadd (Infinity s) (Finite t n f) = Infinity s"
| "fadd (Finite s m e) (Infinity t) = Infinity t"
| "fadd (Finite s m e) (Finite t n f) =
     (let g = min e f;
          a = with_sign s (int m * 2 ^ nat (e - g)) + with_sign t (int n * 2 ^ nat (f - g))
      in if a = 0 then Finite (s \<and> t) 0 (- 1074)
         else round_dyadic (a < 0) (nat \<bar>a\<bar>) g)"

text \<open>The exact value of a finite double.\<close>

fun value_of :: "double \<Rightarrow> rat option" where
  "value_of (Finite s m e) =
     Some ((if s then - 1 else 1) * of_nat m * (if 0 \<le> e then 2 ^ nat e else 1 / 2 ^ nat (- e)))"
| "value_of (Infinity s) = None"
| "value_of (NaN s) = None"

text \<open>
  The conversion \<open>%f\<close> of \<open>printf\<close>: a finite double is written in decimal with exactly six
  digits after the point, the exact binary value being rounded to the nearest such
  decimal; the digits are kept as the number of millionths. An infinity is written
  \<open>inf\<close> and a NaN \<open>nan\<close>, each after a minus sign when its sign bit is set.
\<close>

datatype f_text = Fixed6 bool nat | Inf_text bool | Nan_text bool

fun printf_f :: "double \<Rightarrow> f_text" where
  "printf_f (Finite s m e) =
     Fixed6 s (round_half_even (m * 2 ^ nat e * 10 ^ 6) (2 ^ nat (- e)))"
| "printf_f (Infinity s) = Inf_text s"
| "printf_f (NaN s) = Nan_text s"

fun digits :: "nat \<Rightarrow> string" where
  "digits n = (if n < 10 then [''0123456789'' ! n]
               else digits (n div 10) @ [''0123456789'' ! (n mod 10)])"

declare digits.simps [simp del]

definition printf_d :: "int \<Rightarrow> string" where
  "printf_d i = (if i < 0 then ''-'' @ digits (nat (- i)) else digits (nat i))"

fun show_f_text :: "f_text \<Rightarrow> string" where
  "show_f_text (Fixed6 s n) =
     (if s then ''-'' else []) @ digits (n div 10 ^ 6) @ ''.'' @
     (let d = digits (n mod 10 ^ 6) in drop (length d) ''000000'' @ d)"
| "show_f_text (Inf_text s) = (if s then ''-inf'' else ''inf'')"
| "show_f_text (Nan_text s) = (if s then ''-nan'' else ''nan'')"

text \<open>The number a decimal text with six fractional digits denotes.\<close>

definition decimal_value :: "bool \<Rightarrow> nat \<Rightarrow> rat" where
  "decimal_value s n = (if s then - 1 else 1) * of_nat n / 10 ^ 6"

text \<open>
  Modelled from the spec: the column \<open>carbon_footprint\<close> of the table of events, whose
  declaration is not part of the program and which the specification gives as floating
  point. The server reads the value of an \<open>UPDATE\<close> as a numeric literal and the column
  holds the double nearest to it; a text that is not a number (\<open>inf\<close>, \<open>nan\<close>) or a
  number beyond the range of a double is an error.
\<close>

fun column_value :: "f_text \<Rightarrow> double option" where
  "column_value (Fixed6 s n) =
     (case round_ratio s n 1000000 of
        Finite t m e \<Rightarrow> Some (Finite t m e)
      | Infinity t \<Rightarrow> None
      | NaN t \<Rightarrow> None)"
| "column_value (Inf_text s) = None"
| "column_value (Nan_text s) = None"

section \<open>C strings\<close>

text \<open>
  A character array is a list of bytes; the C string it holds ends before its first
  NUL byte (or with the array). \<open>strcmp\<close> compares two strings byte by byte as
  unsigned characters and stops at the first difference or at the common end;
  \<open>strncpy dest src n\<close> writes the first \<open>n\<close> bytes of \<open>dest\<close>: the string \<open>src\<close>, cut
  after \<open>n\<close> bytes or padded with NUL bytes up to \<open>n\<close>.
\<close>

definition NUL :: char where
  "NUL = CHR 0x00"

definition c_str :: "string \<Rightarrow> string" where
  "c_str buf = takeWhile (\<lambda>c. c \<noteq> NUL) buf"

fun strcmp :: "string \<Rightarrow> string \<Rightarrow> int" where
  "strcmp [] [] = 0"
| "strcmp [] (y # ys) = - int (of_char y)"
| "strcmp (x # xs) [] = int (of_char x)"
| "strcmp (x # xs) (y # ys) =
     (if x \<noteq> y then int (of_char x) - int (of_char y)
      else if x = NUL then 0 else strcmp xs ys)"

definition strncpy :: "string \<Rightarrow> string \<Rightarrow> nat \<Rightarrow> string" where
  "strncpy dest src n =
     (let s = take n (c_str src) in s @ replicate (n - length s) NUL @ drop n dest)"

section \<open>The record structs and the two footprint functions\<close>

record Attendee =
  attendee_id :: "32 word"
  travel_mode :: string
  distance :: double

record Activity =
  activity_id :: "32 word"
  activity_type :: string

definition calculate_attendee_footprint :: "Attendee \<Rightarrow> double" where
  "calculate_attendee_footprint attendee =
     (if strcmp (travel_mode attendee) ''car'' = 0 then fmul (distance attendee) d_0_24
      else if strcmp (travel_mode attendee) ''plane'' = 0 then fmul (distance attendee) d_0_18
      else if strcmp (travel_mode attendee) ''train'' = 0 then fmul (distance attendee) d_0_14
      else d_0_0)"

definition calculate_activity_footprint :: "Activity \<Rightarrow> double" where
  "calculate_activity_footprint activity =
     double_of_int (if strcmp (activity_type activity) ''virtual'' = 0 then 10 else 50)"

section \<open>The database connection\<close>

text \<open>
  The program talks to the server through \<open>PQexec\<close> only, with three statements; the
  model keeps them as a datatype whose arguments are the values \<open>snprintf\<close> puts in
  the place of \<open>%d\<close> and \<open>%f\<close>, and \<open>query\<close> is the text sent.
\<close>

datatype statement =
  SELECT_attendees "32 word"
| SELECT_activities "32 word"
| UPDATE_events f_text "32 word"

fun query :: "statement \<Rightarrow> string" where
  "query (SELECT_attendees event_id) =
     ''SELECT id, travel_mode, distance FROM attendees WHERE event_id = '' @
     printf_d (sint event_id)"
| "query (SELECT_activities event_id) =
     ''SELECT id, activity_type FROM activities WHERE event_id = '' @ printf_d (sint event_id)"
| "query (UPDATE_events total_footprint event_id) =
     ''UPDATE events SET carbon_footprint = '' @ show_f_text total_footprint @
     '' WHERE id = '' @ printf_d (sint event_id)"

text \<open>
  A tuple of a result holds, for each selected column, what the program reads from it:
  \<open>atoi\<close> of the text of \<open>id\<close>, the text of \<open>travel_mode\<close> or \<open>activity_type\<close>, and
  \<open>atof\<close> of the text of \<open>distance\<close>.
\<close>

record attendee_tuple =
  id_field :: "32 word"
  travel_mode_field :: string
  distance_field :: double

record activity_tuple =
  act_id_field :: "32 word"
  activity_type_field :: string

datatype ExecStatusType = PGRES_TUPLES_OK | PGRES_COMMAND_OK | PGRES_FATAL_ERROR

record PGresult =
  PQresultStatus :: ExecStatusType
  attendee_tuples :: "attendee_tuple list"
  activity_tuples :: "activity_tuple list"

text \<open>
  Modelled from the spec: the state outside the program, which is the PostgreSQL server
  with the three tables, and the process. A row of \<open>attendees\<close> and of \<open>activities\<close> comes
  with the event it belongs to; a row of \<open>events\<close> is kept under its id, with its
  \<open>carbon_footprint\<close> and its other columns. Neither \<open>SELECT\<close> of the program has an
  \<open>ORDER BY\<close>, so the server is free in the order of the rows it returns:
  \<open>attendees_scan w k\<close> and \<open>activities_scan w k\<close> arrange the matching rows for the
  \<open>k\<close>-th statement of the connection. \<open>refused\<close> holds the statements the server does
  not execute (a missing relation, a lost connection) and \<open>diagnostic\<close> its message for
  each; \<open>connectable\<close> tells whether it accepts a connection. The rest is the status
  and the error message of the connection, the statements sent so far, the lines written
  to the error stream, and whether the connection has been closed.
\<close>

record 'c Event =
  carbon_footprint :: "double option"
  other_columns :: 'c

datatype ConnStatusType = CONNECTION_OK | CONNECTION_BAD

record 'c world =
  attendees :: "(32 word \<times> attendee_tuple) list"
  activities :: "(32 word \<times> activity_tuple) list"
  events :: "32 word \<rightharpoonup> 'c Event"
  attendees_scan :: "nat \<Rightarrow> attendee_tuple list \<Rightarrow> attendee_tuple list"
  activities_scan :: "nat \<Rightarrow> activity_tuple list \<Rightarrow> activity_tuple list"
  refused :: "statement \<Rightarrow> bool"
  diagnostic :: "statement \<Rightarrow> string"
  connectable :: bool
  PQstatus :: ConnStatusType
  PQerrorMessage :: string
  sent :: "statement list"
  stderr :: "string list"
  finished :: bool

definition PQconnectdb :: "'c world \<Rightarrow> string \<Rightarrow> 'c world" where
  "PQconnectdb w conninfo =
     (if connectable w then w\<lparr>PQstatus := CONNECTION_OK\<rparr>
      else w\<lparr>PQstatus := CONNECTION_BAD,
             PQerrorMessage := ''could not connect to server''\<rparr>)"

definition failure :: PGresult where
  "failure = \<lparr>PQresultStatus = PGRES_FATAL_ERROR, attendee_tuples = [], activity_tuples = []\<rparr>"

text \<open>
  Modelled from the spec: what the server does with a statement it executes. A \<open>SELECT\<close>
  returns the rows of the given event, arranged by the scan of this statement, and
  changes nothing. An \<open>UPDATE\<close> sets \<open>carbon_footprint\<close> of the row with the given id, if
  there is one, to the value the column takes for the text, and is a success also when
  no row has that id; one whose text the column does not take is an error and changes
  nothing.
\<close>

fun execute :: "'c world \<Rightarrow> statement \<Rightarrow> PGresult \<times> 'c world" where
  "execute w (SELECT_attendees event_id) =
     (\<lparr>PQresultStatus = PGRES_TUPLES_OK,
       attendee_tuples =
         attendees_scan w (length (sent w))
           (map snd (filter (\<lambda>r. fst r = event_id) (attendees w))),
       activity_tuples = []\<rparr>, w)"
| "execute w (SELECT_activities event_id) =
     (\<lparr>PQresultStatus = PGRES_TUPLES_OK,
       attendee_tuples = [],
       activity_tuples =
         activities_scan w (length (sent w))
           (map snd (filter (\<lambda>r. fst r = event_id) (activities w)))\<rparr>, w)"
| "execute w (UPDATE_events v event_id) =
     (case column_value v of
        None \<Rightarrow> (failure, w\<lparr>PQerrorMessage := diagnostic w (UPDATE_events v event_id)\<rparr>)
      | Some d \<Rightarrow>
          (\<lparr>PQresultStatus = PGRES_COMMAND_OK, attendee_tuples = [], activity_tuples = []\<rparr>,
           case events w event_id of
             None \<Rightarrow> w
           | Some ev \<Rightarrow>
               w\<lparr>events := (events w)(event_id \<mapsto> ev\<lparr>carbon_footprint := Some d\<rparr>)\<rparr>))"

text \<open>
  \<open>PQexec\<close> sends the statement, which is the next one of the connection, and returns the
  server's result.
\<close>

definition PQexec :: "'c world \<Rightarrow> statement \<Rightarrow> PGresult \<times> 'c world" where
  "PQexec conn st =
     (let conn = conn\<lparr>sent := sent conn @ [st]\<rparr>
      in if refused conn st then (failure, conn\<lparr>PQerrorMessage := diagnostic conn st\<rparr>)
         else execute conn st)"

definition fprintf_stderr :: "string \<Rightarrow> 'c world \<Rightarrow> 'c world" where
  "fprintf_stderr line w = w\<lparr>stderr := stderr w @ [line]\<rparr>"

definition PQfinish :: "'c world \<Rightarrow> 'c world" where
  "PQfinish w = w\<lparr>finished := True\<rparr>"

section \<open>The computation\<close>

text \<open>
  The two loops of \<open>calculate_and_update_event_footprint\<close>. Each builds the struct of
  a tuple (the designated initialiser leaves the character array zeroed, and \<open>strncpy\<close>
  fills its first nine bytes) and adds its footprint to the running total.
\<close>

definition attendee_of_tuple :: "attendee_tuple \<Rightarrow> Attendee" where
  "attendee_of_tuple t =
     \<lparr>attendee_id = id_field t,
      travel_mode = strncpy (replicate 10 NUL) (travel_mode_field t) 9,
      distance = distance_field t\<rparr>"

definition activity_of_tuple :: "activity_tuple \<Rightarrow> Activity" where
  "activity_of_tuple t =
     \<lparr>activity_id = act_id_field t,
      activity_type = strncpy (replicate 10 NUL) (activity_type_field t) 9\<rparr>"

fun attendees_loop :: "double \<Rightarrow> attendee_tuple list \<Rightarrow> double" where
  "attendees_loop total_footprint [] = total_footprint"
| "attendees_loop total_footprint (t # ts) =
     attendees_loop
       (fadd total_footprint (calculate_attendee_footprint (attendee_of_tuple t))) ts"

fun activities_loop :: "double \<Rightarrow> activity_tuple list \<Rightarrow> double" where
  "activities_loop total_footprint [] = total_footprint"
| "activities_loop total_footprint (t # ts) =
     activities_loop
       (fadd total_footprint (calculate_activity_footprint (activity_of_tuple t))) ts"

text \<open>The total the function has computed when both reads have succeeded.\<close>

definition total_footprint :: "attendee_tuple list \<Rightarrow> activity_tuple list \<Rightarrow> double" where
  "total_footprint ats acs = activities_loop (attendees_loop d_0_0 ats) acs"

definition calculate_and_update_event_footprint :: "'c world \<Rightarrow> 32 word \<Rightarrow> 'c world" where
  "calculate_and_update_event_footprint conn event_id =
     (let (res, conn) = PQexec conn (SELECT_attendees event_id)
      in if PQresultStatus res \<noteq> PGRES_TUPLES_OK
         then fprintf_stderr
                (''SELECT attendees failed: '' @ PQerrorMessage conn @ [CHR 0x0A]) conn
         else
           let total = attendees_loop d_0_0 (attendee_tuples res);
               (res, conn) = PQexec conn (SELECT_activities event_id)
           in if PQresultStatus res \<noteq> PGRES_TUPLES_OK
              then fprintf_stderr
                     (''SELECT activities failed: '' @ PQerrorMessage conn @ [CHR 0x0A]) conn
              else
                let total = activities_loop total (activity_tuples res);
                    (res, conn) = PQexec conn (UPDATE_events (printf_f total) event_id)
                in if PQresultStatus res \<noteq> PGRES_COMMAND_OK
                   then fprintf_stderr
                          (''UPDATE event failed: '' @ PQerrorMessage conn @ [CHR 0x0A]) conn
                   else conn)"

text \<open>
  \<open>main\<close> returns the exit status of the process and the state it leaves. The event id
  is the constant 1 of the source; the arguments of the command line are not read.
\<close>

definition main :: "'c world \<Rightarrow> int \<times> 'c world" where
  "main w =
     (let conninfo = ''dbname=your_database user=your_user password=your_password host=localhost'';
          conn = PQconnectdb w conninfo
      in if PQstatus conn \<noteq> CONNECTION_OK
         then (1, PQfinish
                    (fprintf_stderr
                       (''Connection to database failed: '' @ PQerrorMessage conn @ [CHR 0x0A])
                       conn))
         else
           let event_id = 1;
               conn = calculate_and_update_event_footprint conn event_id
           in (0, PQfinish conn))"

text \<open>
  The tuples the two reads of the function return when it is called in the state \<open>w\<close> and
  the server executes them: the read of the attendees is then the next statement of the
  connection and the read of the activities the one after it.
\<close>

definition attendees_of :: "'c world \<Rightarrow> 32 word \<Rightarrow> attendee_tuple list" where
  "attendees_of w event_id =
     attendees_scan w (length (sent w) + 1)
       (map snd (filter (\<lambda>r. fst r = event_id) (attendees w)))"

definition activities_of :: "'c world \<Rightarrow> 32 word \<Rightarrow> activity_tuple list" where
  "activities_of w event_id =
     activities_scan w (length (sent w) + 2)
       (map snd (filter (\<lambda>r. fst r = event_id) (activities w)))"

section \<open>Example data\<close>

text \<open>
  A database with two events, the tables of attendees and activities and the refused
  statements left open; the server returns the rows in the order of the tables, and
  nothing has been sent or written yet.
\<close>

definition example_world ::
  "(32 word \<times> attendee_tuple) list \<Rightarrow> (32 word \<times> activity_tuple) list \<Rightarrow>
   (statement \<Rightarrow> bool) \<Rightarrow> bool \<Rightarrow> string world" where
  "example_world ats acs rf c =
     \<lparr>attendees = ats, activities = acs,
      events = [1 \<mapsto> \<lparr>carbon_footprint = Some (double_of_int 5), other_columns = ''Summit''\<rparr>,
                2 \<mapsto> \<lparr>carbon_footprint = None, other_columns = ''Retreat''\<rparr>],
      attendees_scan = (\<lambda>k rows. rows), activities_scan = (\<lambda>k rows. rows),
      refused = rf, diagnostic = (\<lambda>st. ''ERROR''), connectable = c,
      PQstatus = CONNECTION_BAD, PQerrorMessage = [], sent = [], stderr = [],
      finished = False\<rparr>"


definition attendee_row :: "32 word \<Rightarrow> string \<Rightarrow> double \<Rightarrow> attendee_tuple" where
  "attendee_row i m d = \<lparr>id_field = i, travel_mode_field = m, distance_field = d\<rparr>"

definition activity_row :: "32 word \<Rightarrow> string \<Rightarrow> activity_tuple" where
  "activity_row i k = \<lparr>act_id_field = i, activity_type_field = k\<rparr>"

text \<open>Scenario A of the specification.\<close>

definition scenario_A_attendees :: "attendee_tuple list" where
  "scenario_A_attendees =
     [attendee_row 1 ''car'' (double_of_int 100), attendee_row 2 ''plane'' (double_of_int 50)]"

definition scenario_A_activities :: "activity_tuple list" where
  "scenario_A_activities = [activity_row 1 ''virtual'', activity_row 2 ''workshop'']"

text \<open>
  Three attendees who travel by car: one over \<open>10\<^sup>1\<^sup>7\<close> units of distance, two over
  5 units each.
\<close>

definition far :: attendee_tuple where
  "far = attendee_row 1 ''car'' (round_ratio False 100000000000000000 1)"

definition near :: "32 word \<Rightarrow> attendee_tuple" where
  "near i = attendee_row i ''car'' (double_of_int 5)"

text \<open>
  Attendees whose distance column holds the float values \<open>Infinity\<close> and \<open>-Infinity\<close>.
\<close>

definition endless :: attendee_tuple where
  "endless = attendee_row 1 ''car'' (Infinity False)"

definition endless_back :: attendee_tuple where
  "endless_back = attendee_row 2 ''car'' (Infinity True)"

text \<open>An attendee who travels a millionth of a unit of distance by car.\<close>

definition step :: attendee_tuple where
  "step = attendee_row 1 ''car'' (round_ratio False 1 1000000)"

section \<open>Properties\<close>

subsection \<open>Strings\<close>

lemma of_char_eq_0_iff: "of_char c = (0::nat) \<longleftrightarrow> c = NUL"
proof -
  have "of_char NUL = (0::nat)" by (simp add: NUL_def)
  then show ?thesis by (metis of_char_eq_iff)
qed

lemma strcmp_eq_0_iff: "strcmp a b = 0 \<longleftrightarrow> c_str a = c_str b"
  by (induction a b rule: strcmp.induct) (auto simp: c_str_def of_char_eq_0_iff)

lemma c_str_literals:
  "c_str ''car'' = ''car''" "c_str ''plane'' = ''plane''" "c_str ''train'' = ''train''"
  "c_str ''virtual'' = ''virtual''"
  by (simp_all add: c_str_def NUL_def)

lemma takeWhile_replicate_NUL: "takeWhile (\<lambda>c. c \<noteq> NUL) (replicate k NUL) = []"
  by (cases k) simp_all

lemma c_str_strncpy: "c_str (strncpy (replicate k NUL) src n) = take n (c_str src)"
proof -
  let ?P = "\<lambda>c. c \<noteq> NUL"
  let ?s = "take n (takeWhile ?P src)"
  have s: "?P c" if "c \<in> set ?s" for c
  proof -
    from that have "c \<in> set (takeWhile ?P src)" by (rule in_set_takeD)
    then show ?thesis by (rule set_takeWhileD [THEN conjunct2])
  qed
  have "replicate (n - length ?s) NUL @ drop n (replicate k NUL) =
        replicate (n - length ?s + (k - n)) NUL"
    by (simp only: drop_replicate replicate_add)
  then have "takeWhile ?P (replicate (n - length ?s) NUL @ drop n (replicate k NUL)) = []"
    by (simp only: takeWhile_replicate_NUL)
  moreover have "takeWhile ?P (?s @ replicate (n - length ?s) NUL @ drop n (replicate k NUL)) =
      ?s @ takeWhile ?P (replicate (n - length ?s) NUL @ drop n (replicate k NUL))"
    by (rule takeWhile_append2) (rule s)
  ultimately
  have "takeWhile ?P (?s @ replicate (n - length ?s) NUL @ drop n (replicate k NUL)) = ?s"
    by simp
  then show ?thesis
    by (simp only: strncpy_def c_str_def Let_def)
qed

lemma take_eq_short: "length l < n \<Longrightarrow> take n s = l \<longleftrightarrow> s = l"
proof
  assume l: "length l < n" and t: "take n s = l"
  from t have "length l = min (length s) n" by auto
  with l have "length s \<le> n" by simp
  with t show "s = l" by simp
next
  assume "length l < n" and "s = l"
  then show "take n s = l" by simp
qed

lemma strcmp_field:
  "length (c_str l) < 9 \<Longrightarrow> strcmp (strncpy (replicate 10 NUL) src 9) l = 0 \<longleftrightarrow> c_str src = c_str l"
  by (simp add: strcmp_eq_0_iff c_str_strncpy take_eq_short)

lemma attendee_footprint_of_tuple:
  "calculate_attendee_footprint (attendee_of_tuple t) =
     (if c_str (travel_mode_field t) = ''car'' then fmul (distance_field t) d_0_24
      else if c_str (travel_mode_field t) = ''plane'' then fmul (distance_field t) d_0_18
      else if c_str (travel_mode_field t) = ''train'' then fmul (distance_field t) d_0_14
      else d_0_0)"
  by (simp add: calculate_attendee_footprint_def attendee_of_tuple_def strcmp_field c_str_literals)

lemma activity_footprint_of_tuple:
  "calculate_activity_footprint (activity_of_tuple t) =
     double_of_int (if c_str (activity_type_field t) = ''virtual'' then 10 else 50)"
  by (simp add: calculate_activity_footprint_def activity_of_tuple_def strcmp_field c_str_literals)

text \<open>
  C1. For every attendee struct, \<open>calculate_attendee_footprint\<close> returns the distance
  times the constant 0.24 when the travel mode, the C string held by the character
  array, is exactly \<open>car\<close>, times 0.18 when it is exactly \<open>plane\<close>, times 0.14 when it is
  exactly \<open>train\<close>, and 0.0 for every other travel mode, the empty one included. The
  comparison is byte for byte, so it is case-sensitive.
\<close>

theorem calculate_attendee_footprint_table:
  "(c_str (travel_mode a) = ''car'' \<longrightarrow>
      calculate_attendee_footprint a = fmul (distance a) d_0_24) \<and>
   (c_str (travel_mode a) = ''plane'' \<longrightarrow>
      calculate_attendee_footprint a = fmul (distance a) d_0_18) \<and>
   (c_str (travel_mode a) = ''train'' \<longrightarrow>
      calculate_attendee_footprint a = fmul (distance a) d_0_14) \<and>
   (c_str (travel_mode a) \<notin> {''car'', ''plane'', ''train''} \<longrightarrow>
      calculate_attendee_footprint a = d_0_0)"
  by (simp add: calculate_attendee_footprint_def strcmp_eq_0_iff c_str_literals)

theorem calculate_attendee_footprint_table_witness:
  "calculate_attendee_footprint
     \<lparr>attendee_id = 1, travel_mode = ''car'', distance = double_of_int 100\<rparr> =
     fmul (double_of_int 100) d_0_24 \<and>
   calculate_attendee_footprint
     \<lparr>attendee_id = 2, travel_mode = ''plane'', distance = double_of_int 50\<rparr> =
     fmul (double_of_int 50) d_0_18 \<and>
   calculate_attendee_footprint
     \<lparr>attendee_id = 3, travel_mode = ''train'', distance = double_of_int 5\<rparr> =
     fmul (double_of_int 5) d_0_14 \<and>
   calculate_attendee_footprint
     \<lparr>attendee_id = 4, travel_mode = ''Car'', distance = double_of_int 40\<rparr> = d_0_0 \<and>
   calculate_attendee_footprint
     \<lparr>attendee_id = 5, travel_mode = [], distance = double_of_int 40\<rparr> = d_0_0"
  using
    calculate_attendee_footprint_table
      [of "\<lparr>attendee_id = 1, travel_mode = ''car'', distance = double_of_int 100\<rparr>"]
    calculate_attendee_footprint_table
      [of "\<lparr>attendee_id = 2, travel_mode = ''plane'', distance = double_of_int 50\<rparr>"]
    calculate_attendee_footprint_table
      [of "\<lparr>attendee_id = 3, travel_mode = ''train'', distance = double_of_int 5\<rparr>"]
    calculate_attendee_footprint_table
      [of "\<lparr>attendee_id = 4, travel_mode = ''Car'', distance = double_of_int 40\<rparr>"]
    calculate_attendee_footprint_table
      [of "\<lparr>attendee_id = 5, travel_mode = [], distance = double_of_int 40\<rparr>"]
  by (simp add: c_str_def NUL_def)

text \<open>
  C2. For every activity struct, \<open>calculate_activity_footprint\<close> returns 10 when the
  activity type is exactly \<open>virtual\<close> and 50 for every other activity type, the empty
  one included.
\<close>

theorem calculate_activity_footprint_table:
  "(c_str (activity_type a) = ''virtual'' \<longrightarrow>
      calculate_activity_footprint a = double_of_int 10) \<and>
   (c_str (activity_type a) \<noteq> ''virtual'' \<longrightarrow>
      calculate_activity_footprint a = double_of_int 50)"
  by (simp add: calculate_activity_footprint_def strcmp_eq_0_iff c_str_literals)

theorem calculate_activity_footprint_table_witness:
  "calculate_activity_footprint \<lparr>activity_id = 1, activity_type = ''virtual''\<rparr> =
     double_of_int 10 \<and>
   calculate_activity_footprint \<lparr>activity_id = 2, activity_type = ''workshop''\<rparr> =
     double_of_int 50 \<and>
   calculate_activity_footprint \<lparr>activity_id = 3, activity_type = []\<rparr> = double_of_int 50"
  using
    calculate_activity_footprint_table [of "\<lparr>activity_id = 1, activity_type = ''virtual''\<rparr>"]
    calculate_activity_footprint_table [of "\<lparr>activity_id = 2, activity_type = ''workshop''\<rparr>"]
    calculate_activity_footprint_table [of "\<lparr>activity_id = 3, activity_type = []\<rparr>"]
  by (simp add: c_str_def NUL_def)

subsection \<open>The three statements\<close>

lemma PQexec_refused:
  "refused w st \<Longrightarrow>
     PQexec w st = (failure, w\<lparr>sent := sent w @ [st], PQerrorMessage := diagnostic w st\<rparr>)"
  by (simp add: PQexec_def Let_def)

lemma PQexec_SELECT_attendees:
  "\<not> refused w (SELECT_attendees e) \<Longrightarrow>
     PQexec w (SELECT_attendees e) =
       (\<lparr>PQresultStatus = PGRES_TUPLES_OK, attendee_tuples = attendees_of w e,
         activity_tuples = []\<rparr>,
        w\<lparr>sent := sent w @ [SELECT_attendees e]\<rparr>)"
  by (simp add: PQexec_def Let_def attendees_of_def)

lemma PQexec_SELECT_activities:
  "\<not> refused w (SELECT_activities e) \<Longrightarrow>
     PQexec (w\<lparr>sent := sent w @ [SELECT_attendees e]\<rparr>) (SELECT_activities e) =
       (\<lparr>PQresultStatus = PGRES_TUPLES_OK, attendee_tuples = [],
         activity_tuples = activities_of w e\<rparr>,
        w\<lparr>sent := sent w @ [SELECT_attendees e, SELECT_activities e]\<rparr>)"
  by (simp add: PQexec_def Let_def activities_of_def)

lemma PQexec_UPDATE_failed:
  "refused w (UPDATE_events v e) \<or> column_value v = None \<Longrightarrow>
     PQexec w (UPDATE_events v e) =
       (failure, w\<lparr>sent := sent w @ [UPDATE_events v e],
                   PQerrorMessage := diagnostic w (UPDATE_events v e)\<rparr>)"
  by (auto simp add: PQexec_def Let_def)

lemma PQexec_UPDATE_done:
  "\<not> refused w (UPDATE_events v e) \<Longrightarrow> column_value v = Some d \<Longrightarrow>
     PQexec w (UPDATE_events v e) =
       (\<lparr>PQresultStatus = PGRES_COMMAND_OK, attendee_tuples = [], activity_tuples = []\<rparr>,
        case events w e of
          None \<Rightarrow> w\<lparr>sent := sent w @ [UPDATE_events v e]\<rparr>
        | Some ev \<Rightarrow>
            w\<lparr>sent := sent w @ [UPDATE_events v e],
              events := (events w)(e \<mapsto> ev\<lparr>carbon_footprint := Some d\<rparr>)\<rparr>)"
  by (simp add: PQexec_def Let_def split: option.splits)

text \<open>The state after the function, for each of its ways through the three statements.\<close>

lemma run_attendees_refused:
  "refused w (SELECT_attendees e) \<Longrightarrow>
     calculate_and_update_event_footprint w e =
       w\<lparr>sent := sent w @ [SELECT_attendees e],
         PQerrorMessage := diagnostic w (SELECT_attendees e),
         stderr := stderr w @
           [''SELECT attendees failed: '' @ diagnostic w (SELECT_attendees e) @ [CHR 0x0A]]\<rparr>"
  by (simp add: calculate_and_update_event_footprint_def PQexec_refused failure_def
      fprintf_stderr_def)

lemma run_activities_refused:
  "\<not> refused w (SELECT_attendees e) \<Longrightarrow> refused w (SELECT_activities e) \<Longrightarrow>
     calculate_and_update_event_footprint w e =
       w\<lparr>sent := sent w @ [SELECT_attendees e, SELECT_activities e],
         PQerrorMessage := diagnostic w (SELECT_activities e),
         stderr := stderr w @
           [''SELECT activities failed: '' @ diagnostic w (SELECT_activities e) @ [CHR 0x0A]]\<rparr>"
  by (simp add: calculate_and_update_event_footprint_def PQexec_refused
      PQexec_SELECT_attendees failure_def fprintf_stderr_def)

lemma run_reads_ok:
  "\<not> refused w (SELECT_attendees e) \<Longrightarrow> \<not> refused w (SELECT_activities e) \<Longrightarrow>
     calculate_and_update_event_footprint w e =
       (let st = UPDATE_events (printf_f (total_footprint (attendees_of w e) (activities_of w e))) e;
            (res, conn) = PQexec (w\<lparr>sent := sent w @ [SELECT_attendees e, SELECT_activities e]\<rparr>) st
        in if PQresultStatus res \<noteq> PGRES_COMMAND_OK
           then fprintf_stderr (''UPDATE event failed: '' @ PQerrorMessage conn @ [CHR 0x0A]) conn
           else conn)"
  by (simp add: calculate_and_update_event_footprint_def PQexec_SELECT_attendees
      PQexec_SELECT_activities total_footprint_def)

lemma run_write_failed:
  assumes "\<not> refused w (SELECT_attendees e)" "\<not> refused w (SELECT_activities e)"
    and "refused w (UPDATE_events (printf_f (total_footprint (attendees_of w e) (activities_of w e))) e) \<or>
         column_value (printf_f (total_footprint (attendees_of w e) (activities_of w e))) = None"
  shows "calculate_and_update_event_footprint w e =
       w\<lparr>sent := sent w @ [SELECT_attendees e, SELECT_activities e,
           UPDATE_events (printf_f (total_footprint (attendees_of w e) (activities_of w e))) e],
         PQerrorMessage := diagnostic w
           (UPDATE_events (printf_f (total_footprint (attendees_of w e) (activities_of w e))) e),
         stderr := stderr w @
           [''UPDATE event failed: '' @ diagnostic w
              (UPDATE_events (printf_f (total_footprint (attendees_of w e) (activities_of w e))) e) @
            [CHR 0x0A]]\<rparr>"
proof -
  let ?c = "w\<lparr>sent := sent w @ [SELECT_attendees e, SELECT_activities e]\<rparr>"
  let ?v = "printf_f (total_footprint (attendees_of w e) (activities_of w e))"
  from assms(3) have "refused ?c (UPDATE_events ?v e) \<or> column_value ?v = None" by simp
  then show ?thesis
    by (simp add: run_reads_ok [OF assms(1,2)] PQexec_UPDATE_failed failure_def
        fprintf_stderr_def)
qed

lemma run_write_done:
  assumes "\<not> refused w (SELECT_attendees e)" "\<not> refused w (SELECT_activities e)"
    and "\<not> refused w (UPDATE_events (printf_f (total_footprint (attendees_of w e) (activities_of w e))) e)"
    and "column_value (printf_f (total_footprint (attendees_of w e) (activities_of w e))) = Some d"
  shows "calculate_and_update_event_footprint w e =
       (case events w e of
          None \<Rightarrow>
            w\<lparr>sent := sent w @ [SELECT_attendees e, SELECT_activities e,
                UPDATE_events (printf_f (total_footprint (attendees_of w e) (activities_of w e))) e]\<rparr>
        | Some ev \<Rightarrow>
            w\<lparr>sent := sent w @ [SELECT_attendees e, SELECT_activities e,
                UPDATE_events (printf_f (total_footprint (attendees_of w e) (activities_of w e))) e],
              events := (events w)(e \<mapsto> ev\<lparr>carbon_footprint := Some d\<rparr>)\<rparr>)"
proof -
  let ?c = "w\<lparr>sent := sent w @ [SELECT_attendees e, SELECT_activities e]\<rparr>"
  let ?v = "printf_f (total_footprint (attendees_of w e) (activities_of w e))"
  from assms(3) have "\<not> refused ?c (UPDATE_events ?v e)" by simp
  then show ?thesis
    by (simp add: run_reads_ok [OF assms(1,2)] PQexec_UPDATE_done [OF _ assms(4)]
        split: option.splits)
qed

lemma run_cases:
  obtains
    (attendees_refused) "refused w (SELECT_attendees e)"
  | (activities_refused) "\<not> refused w (SELECT_attendees e)" "refused w (SELECT_activities e)"
  | (write_failed) "\<not> refused w (SELECT_attendees e)" "\<not> refused w (SELECT_activities e)"
      "refused w (UPDATE_events (printf_f (total_footprint (attendees_of w e) (activities_of w e))) e) \<or>
       column_value (printf_f (total_footprint (attendees_of w e) (activities_of w e))) = None"
  | (write_done) d where "\<not> refused w (SELECT_attendees e)" "\<not> refused w (SELECT_activities e)"
      "\<not> refused w (UPDATE_events (printf_f (total_footprint (attendees_of w e) (activities_of w e))) e)"
      "column_value (printf_f (total_footprint (attendees_of w e) (activities_of w e))) = Some d"
  by (cases "column_value (printf_f (total_footprint (attendees_of w e) (activities_of w e)))")
    blast+

lemma run_frame:
  "attendees (calculate_and_update_event_footprint w e) = attendees w"
  "activities (calculate_and_update_event_footprint w e) = activities w"
  "attendees_scan (calculate_and_update_event_footprint w e) = attendees_scan w"
  "activities_scan (calculate_and_update_event_footprint w e) = activities_scan w"
  "refused (calculate_and_update_event_footprint w e) = refused w"
  "diagnostic (calculate_and_update_event_footprint w e) = diagnostic w"
  "connectable (calculate_and_update_event_footprint w e) = connectable w"
  by (cases w e rule: run_cases;
      simp add: run_attendees_refused run_activities_refused run_write_failed run_write_done
        split: option.splits)+

lemma run_events:
  "events (calculate_and_update_event_footprint w e) =
     (if refused w (SELECT_attendees e) \<or> refused w (SELECT_activities e) \<or>
         refused w (UPDATE_events
           (printf_f (total_footprint (attendees_of w e) (activities_of w e))) e)
      then events w
      else case column_value (printf_f (total_footprint (attendees_of w e) (activities_of w e))) of
        None \<Rightarrow> events w
      | Some d \<Rightarrow>
          (case events w e of
             None \<Rightarrow> events w
           | Some ev \<Rightarrow> (events w)(e \<mapsto> ev\<lparr>carbon_footprint := Some d\<rparr>)))"
  by (cases w e rule: run_cases)
    (auto simp add: run_attendees_refused run_activities_refused run_write_failed run_write_done
      split: option.splits)

lemma run_sent:
  "\<not> refused w (SELECT_attendees e) \<Longrightarrow> \<not> refused w (SELECT_activities e) \<Longrightarrow>
     sent (calculate_and_update_event_footprint w e) =
       sent w @ [SELECT_attendees e, SELECT_activities e,
         UPDATE_events (printf_f (total_footprint (attendees_of w e) (activities_of w e))) e]"
  by (cases w e rule: run_cases)
    (simp_all add: run_write_failed run_write_done split: option.splits)

lemma run_statements:
  "\<exists>sts. sent (calculate_and_update_event_footprint w e) = sent w @ sts \<and>
     (\<forall>st\<in>set sts. st = SELECT_attendees e \<or> st = SELECT_activities e \<or>
        (\<exists>v. st = UPDATE_events v e))"
proof (cases "refused w (SELECT_attendees e)")
  case True
  then show ?thesis by (simp add: run_attendees_refused)
next
  case att: False
  show ?thesis
  proof (cases "refused w (SELECT_activities e)")
    case True
    with att show ?thesis by (simp add: run_activities_refused)
  next
    case False
    with att show ?thesis by (simp add: run_sent)
  qed
qed

text \<open>
  C4. When the read of the attendees fails, the function writes its message and returns:
  the only statement sent is that read, so the read of the activities is not attempted,
  and the table of events is as before. When the read of the activities fails, the two
  reads are the only statements sent, so no write is performed, and the table of events
  is as before.
\<close>

theorem failed_read_leaves_event:
  "(refused w (SELECT_attendees e) \<longrightarrow>
      events (calculate_and_update_event_footprint w e) = events w \<and>
      sent (calculate_and_update_event_footprint w e) = sent w @ [SELECT_attendees e] \<and>
      stderr (calculate_and_update_event_footprint w e) =
        stderr w @
        [''SELECT attendees failed: '' @ diagnostic w (SELECT_attendees e) @ [CHR 0x0A]]) \<and>
   (\<not> refused w (SELECT_attendees e) \<and> refused w (SELECT_activities e) \<longrightarrow>
      events (calculate_and_update_event_footprint w e) = events w \<and>
      sent (calculate_and_update_event_footprint w e) =
        sent w @ [SELECT_attendees e, SELECT_activities e] \<and>
      stderr (calculate_and_update_event_footprint w e) =
        stderr w @
        [''SELECT activities failed: '' @ diagnostic w (SELECT_activities e) @ [CHR 0x0A]])"
  by (simp add: run_attendees_refused run_activities_refused)

theorem failed_read_leaves_event_witness:
  "refused (example_world [] [] (\<lambda>st. st = SELECT_attendees 1) True) (SELECT_attendees 1) \<and>
   events (calculate_and_update_event_footprint
            (example_world [] [] (\<lambda>st. st = SELECT_attendees 1) True) 1) =
     events (example_world [] [] (\<lambda>st. st = SELECT_attendees 1) True) \<and>
   sent (calculate_and_update_event_footprint
            (example_world [] [] (\<lambda>st. st = SELECT_attendees 1) True) 1) =
     [SELECT_attendees 1] \<and>
   \<not> refused (example_world [] [] (\<lambda>st. st = SELECT_activities 1) True) (SELECT_attendees 1) \<and>
   refused (example_world [] [] (\<lambda>st. st = SELECT_activities 1) True) (SELECT_activities 1) \<and>
   events (calculate_and_update_event_footprint
            (example_world [] [] (\<lambda>st. st = SELECT_activities 1) True) 1) =
     events (example_world [] [] (\<lambda>st. st = SELECT_activities 1) True) \<and>
   sent (calculate_and_update_event_footprint
            (example_world [] [] (\<lambda>st. st = SELECT_activities 1) True) 1) =
     [SELECT_attendees 1, SELECT_activities 1]"
  using
    failed_read_leaves_event [of "example_world [] [] (\<lambda>st. st = SELECT_attendees 1) True" 1]
    failed_read_leaves_event [of "example_world [] [] (\<lambda>st. st = SELECT_activities 1) True" 1]
  by (simp add: example_world_def)

text \<open>
  C5. The exit status of the process is 1 exactly when the connection to the database
  fails, and 0 in every other case, whatever statements the server refuses afterwards.
\<close>

theorem main_exit_status:
  "(connectable w \<longrightarrow> fst (main w) = 0) \<and> (\<not> connectable w \<longrightarrow> fst (main w) = 1)"
  by (simp add: main_def PQconnectdb_def Let_def)

theorem main_exit_status_witness:
  "connectable (example_world [] [] (\<lambda>st. True) True) \<and>
   fst (main (example_world [] [] (\<lambda>st. True) True)) = 0 \<and>
   \<not> connectable (example_world [] [] (\<lambda>st. False) False) \<and>
   fst (main (example_world [] [] (\<lambda>st. False) False)) = 1"
  using
    main_exit_status [of "example_world [] [] (\<lambda>st. True) True"]
    main_exit_status [of "example_world [] [] (\<lambda>st. False) False"]
  by (simp add: example_world_def)

text \<open>
  C9. Whatever the server does with the statements, the function leaves the tables of
  attendees and activities as they are, leaves every event row other than the one with
  the given id as it is, neither adds nor removes an event row, and leaves the other
  columns of the row with the given id as they are: only \<open>carbon_footprint\<close> of that
  row can change. The statements it sends are the two reads and the write for that id,
  and no other.
\<close>

theorem only_the_event_footprint_changes:
  "attendees (calculate_and_update_event_footprint w e) = attendees w \<and>
   activities (calculate_and_update_event_footprint w e) = activities w \<and>
   (\<forall>i. i \<noteq> e \<longrightarrow> events (calculate_and_update_event_footprint w e) i = events w i) \<and>
   dom (events (calculate_and_update_event_footprint w e)) = dom (events w) \<and>
   map_option other_columns (events (calculate_and_update_event_footprint w e) e) =
     map_option other_columns (events w e) \<and>
   (\<exists>sts. sent (calculate_and_update_event_footprint w e) = sent w @ sts \<and>
      (\<forall>st\<in>set sts. st = SELECT_attendees e \<or> st = SELECT_activities e \<or>
         (\<exists>v. st = UPDATE_events v e)))"
proof -
  have "attendees (calculate_and_update_event_footprint w e) = attendees w \<and>
   activities (calculate_and_update_event_footprint w e) = activities w \<and>
   (\<forall>i. i \<noteq> e \<longrightarrow> events (calculate_and_update_event_footprint w e) i = events w i) \<and>
   dom (events (calculate_and_update_event_footprint w e)) = dom (events w) \<and>
   map_option other_columns (events (calculate_and_update_event_footprint w e) e) =
     map_option other_columns (events w e)"
    by (auto simp add: run_frame run_events split: f_text.splits option.splits if_splits)
  with run_statements [of w e] show ?thesis by blast
qed

theorem only_the_event_footprint_changes_witness:
  "(2::32 word) \<noteq> 1 \<and>
   events (calculate_and_update_event_footprint (example_world [] [] (\<lambda>st. False) True) 1) 2 =
     events (example_world [] [] (\<lambda>st. False) True) 2"
  using only_the_event_footprint_changes [of "example_world [] [] (\<lambda>st. False) True" 1]
  by simp

text \<open>
  C7 (amended). When both reads succeed the write is always sent, as the third statement,
  with the rendering of the computed total: nothing in the total or in the stored value
  keeps the function from sending it. When the server executes it (it is not refused
  and the column takes its text), it replaces \<open>carbon_footprint\<close> of the event row
  whatever that value was before. For an event without attendee rows and without
  activity rows the total is 0.0, the text written is \<open>0.000000\<close> and the row is written
  with 0.0.
\<close>

theorem write_follows_reads:
  "\<not> refused w (SELECT_attendees e) \<and> \<not> refused w (SELECT_activities e) \<longrightarrow>
     sent (calculate_and_update_event_footprint w e) =
       sent w @ [SELECT_attendees e, SELECT_activities e,
         UPDATE_events (printf_f (total_footprint (attendees_of w e) (activities_of w e))) e] \<and>
     (\<forall>d ev.
        column_value (printf_f (total_footprint (attendees_of w e) (activities_of w e))) =
          Some d \<and>
        \<not> refused w (UPDATE_events
            (printf_f (total_footprint (attendees_of w e) (activities_of w e))) e) \<and>
        events w e = Some ev \<longrightarrow>
        events (calculate_and_update_event_footprint w e) e =
          Some (ev\<lparr>carbon_footprint := Some d\<rparr>)) \<and>
     (\<forall>ev.
        attendees_of w e = [] \<and> activities_of w e = [] \<and>
        \<not> refused w (UPDATE_events (Fixed6 False 0) e) \<and> events w e = Some ev \<longrightarrow>
        total_footprint (attendees_of w e) (activities_of w e) = d_0_0 \<and>
        show_f_text (printf_f (total_footprint (attendees_of w e) (activities_of w e))) =
          ''0.000000'' \<and>
        events (calculate_and_update_event_footprint w e) e =
          Some (ev\<lparr>carbon_footprint := Some d_0_0\<rparr>))"
proof (intro impI)
  assume "\<not> refused w (SELECT_attendees e) \<and> \<not> refused w (SELECT_activities e)"
  then have reads: "\<not> refused w (SELECT_attendees e)" "\<not> refused w (SELECT_activities e)"
    by simp_all
  let ?T = "total_footprint (attendees_of w e) (activities_of w e)"
  have 1: "sent (calculate_and_update_event_footprint w e) =
       sent w @ [SELECT_attendees e, SELECT_activities e, UPDATE_events (printf_f ?T) e]"
    using reads by (rule run_sent)
  have 2: "events (calculate_and_update_event_footprint w e) e =
          Some (ev\<lparr>carbon_footprint := Some d\<rparr>)"
    if "column_value (printf_f ?T) = Some d \<and> \<not> refused w (UPDATE_events (printf_f ?T) e) \<and>
        events w e = Some ev" for d ev
    using reads that by (simp add: run_events)
  have 3: "?T = d_0_0 \<and> show_f_text (printf_f ?T) = ''0.000000'' \<and>
        events (calculate_and_update_event_footprint w e) e =
          Some (ev\<lparr>carbon_footprint := Some d_0_0\<rparr>)"
    if "attendees_of w e = [] \<and> activities_of w e = [] \<and>
        \<not> refused w (UPDATE_events (Fixed6 False 0) e) \<and> events w e = Some ev" for ev
  proof -
    from that have t: "?T = d_0_0"
      by (simp add: total_footprint_def)
    have r: "printf_f d_0_0 = Fixed6 False 0"
      by (simp add: d_0_0_def round_half_even_def)
    have c: "column_value (Fixed6 False 0) = Some d_0_0"
      by (simp add: round_ratio_def d_0_0_def)
    have "show_f_text (Fixed6 False 0) = ''0.000000''"
      by (simp add: digits.simps)
    with reads that t r c show ?thesis
      by (simp add: run_events)
  qed
  from 1 2 3 show
    "sent (calculate_and_update_event_footprint w e) =
       sent w @ [SELECT_attendees e, SELECT_activities e, UPDATE_events (printf_f ?T) e] \<and>
     (\<forall>d ev.
        column_value (printf_f ?T) = Some d \<and> \<not> refused w (UPDATE_events (printf_f ?T) e) \<and>
        events w e = Some ev \<longrightarrow>
        events (calculate_and_update_event_footprint w e) e =
          Some (ev\<lparr>carbon_footprint := Some d\<rparr>)) \<and>
     (\<forall>ev.
        attendees_of w e = [] \<and> activities_of w e = [] \<and>
        \<not> refused w (UPDATE_events (Fixed6 False 0) e) \<and> events w e = Some ev \<longrightarrow>
        ?T = d_0_0 \<and> show_f_text (printf_f ?T) = ''0.000000'' \<and>
        events (calculate_and_update_event_footprint w e) e =
          Some (ev\<lparr>carbon_footprint := Some d_0_0\<rparr>))"
    by blast
qed

theorem write_follows_reads_witness:
  "\<not> refused (example_world [] [] (\<lambda>st. False) True) (SELECT_attendees 1) \<and>
   \<not> refused (example_world [] [] (\<lambda>st. False) True) (SELECT_activities 1) \<and>
   attendees_of (example_world [] [] (\<lambda>st. False) True) 1 = [] \<and>
   activities_of (example_world [] [] (\<lambda>st. False) True) 1 = [] \<and>
   events (example_world [] [] (\<lambda>st. False) True) 1 =
     Some \<lparr>carbon_footprint = Some (double_of_int 5), other_columns = ''Summit''\<rparr> \<and>
   sent (calculate_and_update_event_footprint (example_world [] [] (\<lambda>st. False) True) 1) =
     [SELECT_attendees 1, SELECT_activities 1, UPDATE_events (Fixed6 False 0) 1] \<and>
   events (calculate_and_update_event_footprint (example_world [] [] (\<lambda>st. False) True) 1) 1 =
     Some \<lparr>carbon_footprint = Some d_0_0, other_columns = ''Summit''\<rparr>"
  using write_follows_reads [of "example_world [] [] (\<lambda>st. False) True" 1]
  by (simp add: example_world_def attendees_of_def activities_of_def total_footprint_def
      d_0_0_def round_half_even_def)

subsection \<open>The loops as sums\<close>

lemma attendees_loop_foldl:
  "attendees_loop t ts =
     foldl fadd t (map (\<lambda>x. calculate_attendee_footprint (attendee_of_tuple x)) ts)"
  by (induction ts arbitrary: t) simp_all

lemma activities_loop_foldl:
  "activities_loop t ts =
     foldl fadd t (map (\<lambda>x. calculate_activity_footprint (activity_of_tuple x)) ts)"
  by (induction ts arbitrary: t) simp_all

lemma map2_cong:
  "map f xs = map f ys \<Longrightarrow> map g xs = map g ys \<Longrightarrow>
     map (\<lambda>x. h (f x) (g x)) xs = map (\<lambda>x. h (f x) (g x)) ys"
proof (induction xs arbitrary: ys)
  case Nil
  then show ?case by simp
next
  case (Cons x xs)
  then obtain y ys' where ys: "ys = y # ys'" by (cases ys) auto
  with Cons show ?case by simp
qed

lemma attendee_footprints_cong:
  assumes "map travel_mode_field ats = map travel_mode_field ats'"
    and "map distance_field ats = map distance_field ats'"
  shows "map (\<lambda>x. calculate_attendee_footprint (attendee_of_tuple x)) ats =
         map (\<lambda>x. calculate_attendee_footprint (attendee_of_tuple x)) ats'"
  unfolding attendee_footprint_of_tuple using assms by (rule map2_cong)

lemma activity_footprints_cong:
  assumes "map activity_type_field acs = map activity_type_field acs'"
  shows "map (\<lambda>x. calculate_activity_footprint (activity_of_tuple x)) acs =
         map (\<lambda>x. calculate_activity_footprint (activity_of_tuple x)) acs'"
  unfolding activity_footprint_of_tuple using assms assms by (rule map2_cong)


lemma total_footprint_cong:
  assumes "map travel_mode_field ats = map travel_mode_field ats'"
    and "map distance_field ats = map distance_field ats'"
    and "map activity_type_field acs = map activity_type_field acs'"
  shows "total_footprint ats acs = total_footprint ats' acs'"
proof -
  have "map (\<lambda>x. calculate_attendee_footprint (attendee_of_tuple x)) ats =
        map (\<lambda>x. calculate_attendee_footprint (attendee_of_tuple x)) ats'"
    using assms(1,2) by (rule attendee_footprints_cong)
  moreover
  have "map (\<lambda>x. calculate_activity_footprint (activity_of_tuple x)) acs =
        map (\<lambda>x. calculate_activity_footprint (activity_of_tuple x)) acs'"
    using assms(3) by (rule activity_footprints_cong)
  ultimately show ?thesis
    by (simp only: total_footprint_def attendees_loop_foldl activities_loop_foldl)
qed



subsection \<open>Evaluating the arithmetic\<close>

lemma bit_length_numeral [simp]:
  "bit_length 0 = 0"
  "bit_length 1 = 1"
  "bit_length (numeral Num.One) = 1"
  "bit_length (numeral (Num.Bit0 k)) = Suc (bit_length (numeral k))"
  "bit_length (numeral (Num.Bit1 k)) = Suc (bit_length (numeral k))"
  by (subst bit_length.simps, simp)+

lemmas arith_defs =
  round_ratio_def round_half_even_def round_dyadic_def double_of_int_def with_sign_def Let_def

lemma constants:
  "d_0_24 = Finite False 8646911284551352 (- 55)"
  "d_0_18 = Finite False 6485183463413514 (- 55)"
  "d_0_14 = Finite False 5044031582654956 (- 55)"
  by (simp_all add: d_0_24_def d_0_18_def d_0_14_def arith_defs)

lemma small_integers:
  "double_of_int 5 = Finite False 5629499534213120 (- 50)"
  "double_of_int 10 = Finite False 5629499534213120 (- 49)"
  "double_of_int 50 = Finite False 7036874417766400 (- 47)"
  "double_of_int 93 = Finite False 6544293208522752 (- 46)"
  "double_of_int 100 = Finite False 7036874417766400 (- 46)"
  by (simp_all add: arith_defs)

lemma scenario_A_products:
  "fmul (Finite False 7036874417766400 (- 46)) (Finite False 8646911284551352 (- 55)) =
     Finite False 6755399441055744 (- 48)"
  "fmul (Finite False 7036874417766400 (- 47)) (Finite False 6485183463413514 (- 55)) =
     Finite False 5066549580791808 (- 49)"
  by (simp_all add: arith_defs)

lemma scenario_A_sums:
  "fadd (Finite False 0 (- 1074)) (Finite False 6755399441055744 (- 48)) =
     Finite False 6755399441055744 (- 48)"
  "fadd (Finite False 6755399441055744 (- 48)) (Finite False 5066549580791808 (- 49)) =
     Finite False 4644337115725824 (- 47)"
  "fadd (Finite False 4644337115725824 (- 47)) (Finite False 5629499534213120 (- 49)) =
     Finite False 6051711999279104 (- 47)"
  "fadd (Finite False 6051711999279104 (- 47)) (Finite False 7036874417766400 (- 47)) =
     Finite False 6544293208522752 (- 46)"
  by (simp_all add: arith_defs)

lemma attendee_row_footprint:
  "calculate_attendee_footprint (attendee_of_tuple (attendee_row i ''car'' d)) = fmul d d_0_24"
  "calculate_attendee_footprint (attendee_of_tuple (attendee_row i ''plane'' d)) = fmul d d_0_18"
  "calculate_attendee_footprint (attendee_of_tuple (attendee_row i ''train'' d)) = fmul d d_0_14"
  by (simp_all add: attendee_footprint_of_tuple attendee_row_def c_str_def NUL_def)

lemma activity_row_footprint:
  "calculate_activity_footprint (activity_of_tuple (activity_row i ''virtual'')) =
     double_of_int 10"
  "calculate_activity_footprint (activity_of_tuple (activity_row i ''workshop'')) =
     double_of_int 50"
  by (simp_all add: activity_footprint_of_tuple activity_row_def c_str_def NUL_def)

lemma scenario_A_total_value:
  "total_footprint scenario_A_attendees scenario_A_activities =
     Finite False 6544293208522752 (- 46)"
  by (simp add: total_footprint_def scenario_A_attendees_def scenario_A_activities_def
      attendee_row_footprint activity_row_footprint d_0_0_def constants small_integers
      scenario_A_products scenario_A_sums del: fmul.simps fadd.simps)

lemma scenario_A_rendering:
  "printf_f (Finite False 6544293208522752 (- 46)) = Fixed6 False 93000000"
  "column_value (Fixed6 False 93000000) = Some (Finite False 6544293208522752 (- 46))"
  "show_f_text (Fixed6 False 93000000) = ''93.000000''"
  by (simp_all add: arith_defs digits.simps)

text \<open>
  C6. When both reads succeed and return the attendee rows (car, 100) and (plane, 50)
  and the activity rows (virtual) and (workshop), whatever their ids, the total the
  function computes is exactly the double 93.0: the function sends the write with its
  rendering, which is 93.000000, and the event row then holds 93.0.
\<close>

theorem scenario_A_total:
  "\<not> refused w (SELECT_attendees e) \<and> \<not> refused w (SELECT_activities e) \<and>
   map travel_mode_field (attendees_of w e) = [''car'', ''plane''] \<and>
   map distance_field (attendees_of w e) = [double_of_int 100, double_of_int 50] \<and>
   map activity_type_field (activities_of w e) = [''virtual'', ''workshop''] \<longrightarrow>
     total_footprint (attendees_of w e) (activities_of w e) = double_of_int 93 \<and>
     value_of (double_of_int 93) = Some 93 \<and>
     sent (calculate_and_update_event_footprint w e) =
       sent w @ [SELECT_attendees e, SELECT_activities e,
         UPDATE_events (printf_f (double_of_int 93)) e] \<and>
     show_f_text (printf_f (double_of_int 93)) = ''93.000000'' \<and>
     (\<forall>ev. \<not> refused w (UPDATE_events (printf_f (double_of_int 93)) e) \<and>
        events w e = Some ev \<longrightarrow>
        events (calculate_and_update_event_footprint w e) e =
          Some (ev\<lparr>carbon_footprint := Some (double_of_int 93)\<rparr>))"
proof (intro impI)
  assume a: "\<not> refused w (SELECT_attendees e) \<and> \<not> refused w (SELECT_activities e) \<and>
   map travel_mode_field (attendees_of w e) = [''car'', ''plane''] \<and>
   map distance_field (attendees_of w e) = [double_of_int 100, double_of_int 50] \<and>
   map activity_type_field (activities_of w e) = [''virtual'', ''workshop'']"
  then have reads: "\<not> refused w (SELECT_attendees e)" "\<not> refused w (SELECT_activities e)"
    by simp_all
  have "total_footprint (attendees_of w e) (activities_of w e) =
      total_footprint scenario_A_attendees scenario_A_activities"
    using a
    by (intro total_footprint_cong)
      (simp_all add: scenario_A_attendees_def scenario_A_activities_def attendee_row_def
        activity_row_def)
  then have t: "total_footprint (attendees_of w e) (activities_of w e) = double_of_int 93"
    by (simp add: scenario_A_total_value small_integers)
  have v: "value_of (double_of_int 93) = Some 93"
    by (simp add: small_integers)
  have s: "sent (calculate_and_update_event_footprint w e) =
       sent w @ [SELECT_attendees e, SELECT_activities e,
         UPDATE_events (printf_f (double_of_int 93)) e]"
    using reads by (simp add: run_sent t)
  have r: "show_f_text (printf_f (double_of_int 93)) = ''93.000000''"
    by (simp add: small_integers scenario_A_rendering del: printf_f.simps show_f_text.simps)
  have c: "column_value (printf_f (double_of_int 93)) = Some (double_of_int 93)"
    by (simp add: small_integers scenario_A_rendering del: printf_f.simps column_value.simps)
  have u: "events (calculate_and_update_event_footprint w e) e =
          Some (ev\<lparr>carbon_footprint := Some (double_of_int 93)\<rparr>)"
    if "\<not> refused w (UPDATE_events (printf_f (double_of_int 93)) e) \<and> events w e = Some ev"
    for ev
    using reads that by (simp add: run_events t c)
  from t v s r u show
    "total_footprint (attendees_of w e) (activities_of w e) = double_of_int 93 \<and>
     value_of (double_of_int 93) = Some 93 \<and>
     sent (calculate_and_update_event_footprint w e) =
       sent w @ [SELECT_attendees e, SELECT_activities e,
         UPDATE_events (printf_f (double_of_int 93)) e] \<and>
     show_f_text (printf_f (double_of_int 93)) = ''93.000000'' \<and>
     (\<forall>ev. \<not> refused w (UPDATE_events (printf_f (double_of_int 93)) e) \<and>
        events w e = Some ev \<longrightarrow>
        events (calculate_and_update_event_footprint w e) e =
          Some (ev\<lparr>carbon_footprint := Some (double_of_int 93)\<rparr>))"
    by blast
qed

theorem scenario_A_total_witness:
  "map travel_mode_field (attendees_of
     (example_world [(1, attendee_row 7 ''car'' (double_of_int 100)), (2, far),
        (1, attendee_row 8 ''plane'' (double_of_int 50))]
       [(1, activity_row 3 ''virtual''), (1, activity_row 4 ''workshop'')]
       (\<lambda>st. False) True) 1) = [''car'', ''plane''] \<and>
   sent (calculate_and_update_event_footprint
     (example_world [(1, attendee_row 7 ''car'' (double_of_int 100)), (2, far),
        (1, attendee_row 8 ''plane'' (double_of_int 50))]
       [(1, activity_row 3 ''virtual''), (1, activity_row 4 ''workshop'')]
       (\<lambda>st. False) True) 1) =
     [SELECT_attendees 1, SELECT_activities 1, UPDATE_events (Fixed6 False 93000000) 1] \<and>
   events (calculate_and_update_event_footprint
     (example_world [(1, attendee_row 7 ''car'' (double_of_int 100)), (2, far),
        (1, attendee_row 8 ''plane'' (double_of_int 50))]
       [(1, activity_row 3 ''virtual''), (1, activity_row 4 ''workshop'')]
       (\<lambda>st. False) True) 1) 1 =
     Some \<lparr>carbon_footprint = Some (double_of_int 93), other_columns = ''Summit''\<rparr>"
  using scenario_A_total
    [of "example_world [(1, attendee_row 7 ''car'' (double_of_int 100)), (2, far),
        (1, attendee_row 8 ''plane'' (double_of_int 50))]
       [(1, activity_row 3 ''virtual''), (1, activity_row 4 ''workshop'')]
       (\<lambda>st. False) True" 1]
  by (simp add: example_world_def attendees_of_def activities_of_def attendee_row_def
      activity_row_def small_integers scenario_A_rendering
      del: printf_f.simps column_value.simps)

subsection \<open>The rendering of the total\<close>

lemma round_half_even_bound:
  assumes "0 < den"
  shows "\<bar>(of_nat (round_half_even num den) :: rat) - of_nat num / of_nat den\<bar> \<le> 1 / 2"
proof -
  define q r where "q = num div den" and "r = num mod den"
  have num: "num = q * den + r" and r: "r < den"
    using assms by (simp_all add: q_def r_def)
  have d: "(0::rat) < of_nat den" using assms by simp
  have quot: "(of_nat num :: rat) / of_nat den = of_nat q + of_nat r / of_nat den"
    using d by (simp add: num field_simps)
  show ?thesis
  proof (cases "den < 2 * r \<or> (2 * r = den \<and> odd q)")
    case True
    then have up: "round_half_even num den = q + 1"
      by (simp add: round_half_even_def q_def r_def Let_def)
    from True have "den \<le> 2 * r" by auto
    then have "(of_nat den :: rat) \<le> 2 * of_nat r" by (metis of_nat_le_iff of_nat_mult of_nat_numeral)
    moreover have "(of_nat r :: rat) < of_nat den" using r by simp
    ultimately show ?thesis
      using d by (simp add: up quot field_simps abs_if)
  next
    case False
    then have down: "round_half_even num den = q"
      by (simp add: round_half_even_def q_def r_def Let_def)
    from False have "2 * r \<le> den" by auto
    then have "2 * (of_nat r :: rat) \<le> of_nat den" by (metis of_nat_le_iff of_nat_mult of_nat_numeral)
    then show ?thesis
      using d by (simp add: down quot field_simps abs_if)
  qed
qed

lemma printf_f_bound:
  assumes "value_of x = Some v" and "printf_f x = Fixed6 s n"
  shows "\<bar>decimal_value s n - v\<bar> \<le> 1 / 2000000"
proof -
  from assms obtain m e where x: "x = Finite s m e"
    by (cases x) auto
  let ?num = "m * 2 ^ nat e * 10 ^ 6" and ?den = "(2::nat) ^ nat (- e)"
  have n: "n = round_half_even ?num ?den" using assms(2) by (simp add: x)
  have "\<bar>(of_nat n :: rat) - of_nat ?num / of_nat ?den\<bar> \<le> 1 / 2"
    unfolding n by (rule round_half_even_bound) simp
  moreover have "(of_nat ?num :: rat) / of_nat ?den =
      of_nat m * (if 0 \<le> e then 2 ^ nat e else 1 / 2 ^ nat (- e)) * 10 ^ 6"
    by (cases "0 \<le> e") simp_all
  ultimately have b: "\<bar>(of_nat n :: rat) -
      of_nat m * (if 0 \<le> e then 2 ^ nat e else 1 / 2 ^ nat (- e)) * 10 ^ 6\<bar> \<le> 1 / 2"
    by simp
  have v: "v = (if s then - 1 else 1) * of_nat m * (if 0 \<le> e then 2 ^ nat e else 1 / 2 ^ nat (- e))"
    using assms(1) by (simp add: x)
  define u :: rat where "u = of_nat m * (if 0 \<le> e then 2 ^ nat e else 1 / 2 ^ nat (- e))"
  have "\<bar>decimal_value s n - v\<bar> = \<bar>of_nat n - u * 10 ^ 6\<bar> / 10 ^ 6"
    by (cases s) (simp_all add: decimal_value_def v u_def field_simps abs_if)
  also have "\<dots> \<le> (1 / 2) / 10 ^ 6"
    using b by (simp add: u_def divide_right_mono)
  finally show ?thesis by simp
qed

text \<open>
  C10 (amended). What the function sends to be stored is the decimal rendering of the
  total by \<open>%f\<close>, not the double itself: when both reads succeed and the total is
  finite, the write carries a whole number of millionths that differs from the computed
  total by at most half a millionth. When the server executes the write on an existing
  event row, the floating-point column then holds the double nearest to that decimal,
  which need not be the computed total.
\<close>

theorem stored_total_is_rendering:
  "\<not> refused w (SELECT_attendees e) \<and> \<not> refused w (SELECT_activities e) \<and>
   value_of (total_footprint (attendees_of w e) (activities_of w e)) = Some v \<and>
   printf_f (total_footprint (attendees_of w e) (activities_of w e)) = Fixed6 s n \<longrightarrow>
     sent (calculate_and_update_event_footprint w e) =
       sent w @ [SELECT_attendees e, SELECT_activities e, UPDATE_events (Fixed6 s n) e] \<and>
     decimal_value s n * 10 ^ 6 = of_int (with_sign s (int n)) \<and>
     \<bar>decimal_value s n - v\<bar> \<le> 1 / 2000000 \<and>
     (\<forall>d ev.
        column_value (Fixed6 s n) = Some d \<and> \<not> refused w (UPDATE_events (Fixed6 s n) e) \<and>
        events w e = Some ev \<longrightarrow>
        d = round_ratio s n 1000000 \<and>
        events (calculate_and_update_event_footprint w e) e =
          Some (ev\<lparr>carbon_footprint := Some d\<rparr>))"
proof (intro impI, elim conjE)
  assume reads: "\<not> refused w (SELECT_attendees e)" "\<not> refused w (SELECT_activities e)"
    and v: "value_of (total_footprint (attendees_of w e) (activities_of w e)) = Some v"
    and t: "printf_f (total_footprint (attendees_of w e) (activities_of w e)) = Fixed6 s n"
  have 1: "sent (calculate_and_update_event_footprint w e) =
       sent w @ [SELECT_attendees e, SELECT_activities e, UPDATE_events (Fixed6 s n) e]"
    using reads t by (simp add: run_sent)
  have 2: "decimal_value s n * 10 ^ 6 = of_int (with_sign s (int n))"
    by (simp add: decimal_value_def with_sign_def)
  have 3: "\<bar>decimal_value s n - v\<bar> \<le> 1 / 2000000"
    using v t by (rule printf_f_bound)
  have 4: "d = round_ratio s n 1000000 \<and>
        events (calculate_and_update_event_footprint w e) e =
          Some (ev\<lparr>carbon_footprint := Some d\<rparr>)"
    if "column_value (Fixed6 s n) = Some d \<and> \<not> refused w (UPDATE_events (Fixed6 s n) e) \<and>
        events w e = Some ev" for d ev
  proof
    from that show "d = round_ratio s n 1000000"
      by (auto split: double.splits)
    from that reads t show "events (calculate_and_update_event_footprint w e) e =
          Some (ev\<lparr>carbon_footprint := Some d\<rparr>)"
      by (simp add: run_events del: column_value.simps)
  qed
  from 1 2 3 4 show
    "sent (calculate_and_update_event_footprint w e) =
       sent w @ [SELECT_attendees e, SELECT_activities e, UPDATE_events (Fixed6 s n) e] \<and>
     decimal_value s n * 10 ^ 6 = of_int (with_sign s (int n)) \<and>
     \<bar>decimal_value s n - v\<bar> \<le> 1 / 2000000 \<and>
     (\<forall>d ev.
        column_value (Fixed6 s n) = Some d \<and> \<not> refused w (UPDATE_events (Fixed6 s n) e) \<and>
        events w e = Some ev \<longrightarrow>
        d = round_ratio s n 1000000 \<and>
        events (calculate_and_update_event_footprint w e) e =
          Some (ev\<lparr>carbon_footprint := Some d\<rparr>))"
    by blast
qed

lemma step_total:
  "total_footprint [step] [] = Finite False 4533471823554859 (- 74)"
proof -
  have "round_ratio False 1 1000000 = Finite False 4722366482869645 (- 72)"
    by (simp add: arith_defs)
  moreover
  have "fmul (Finite False 4722366482869645 (- 72)) (Finite False 8646911284551352 (- 55)) =
        Finite False 4533471823554859 (- 74)"
    by (simp add: arith_defs)
  moreover
  have "fadd (Finite False 0 (- 1074)) (Finite False 4533471823554859 (- 74)) =
        Finite False 4533471823554859 (- 74)"
    by (simp add: arith_defs)
  ultimately show ?thesis
    by (simp add: total_footprint_def step_def attendee_row_footprint constants d_0_0_def
        del: fmul.simps fadd.simps)
qed

lemma step_rendering:
  "printf_f (Finite False 4533471823554859 (- 74)) = Fixed6 False 0"
  "column_value (Fixed6 False 0) = Some (Finite False 0 (- 1074))"
  "round_ratio False 0 1000000 = Finite False 0 (- 1074)"
  by (simp_all add: round_half_even_def round_ratio_def)

theorem stored_total_is_rendering_witness:
  "value_of (total_footprint
     (attendees_of (example_world [(1, step)] [] (\<lambda>st. False) True) 1)
     (activities_of (example_world [(1, step)] [] (\<lambda>st. False) True) 1)) =
     Some (4533471823554859 / 18889465931478580854784) \<and>
   sent (calculate_and_update_event_footprint
     (example_world [(1, step)] [] (\<lambda>st. False) True) 1) =
     [SELECT_attendees 1, SELECT_activities 1, UPDATE_events (Fixed6 False 0) 1] \<and>
   \<bar>decimal_value False 0 - 4533471823554859 / 18889465931478580854784\<bar> \<le> 1 / 2000000 \<and>
   events (calculate_and_update_event_footprint
     (example_world [(1, step)] [] (\<lambda>st. False) True) 1) 1 =
     Some \<lparr>carbon_footprint = Some (Finite False 0 (- 1074)), other_columns = ''Summit''\<rparr> \<and>
   total_footprint
     (attendees_of (example_world [(1, step)] [] (\<lambda>st. False) True) 1)
     (activities_of (example_world [(1, step)] [] (\<lambda>st. False) True) 1) \<noteq>
     Finite False 0 (- 1074)"
  using stored_total_is_rendering
    [of "example_world [(1, step)] [] (\<lambda>st. False) True" 1
        "4533471823554859 / 18889465931478580854784" False 0]
  by (simp add: example_world_def attendees_of_def activities_of_def step_total
      step_rendering del: printf_f.simps column_value.simps)

subsection \<open>Sums of small whole numbers are exact\<close>

lemma bit_length_less: "n < 2 ^ bit_length n"
proof (induction n rule: bit_length.induct)
  case (1 n)
  show ?case
  proof (cases "n = 0")
    case True
    then show ?thesis by (simp add: bit_length.simps)
  next
    case False
    with 1 have "n div 2 < 2 ^ bit_length (n div 2)" by simp
    then have "n < 2 * 2 ^ bit_length (n div 2)" by linarith
    with False show ?thesis by (subst bit_length.simps) simp
  qed
qed

lemma bit_length_ge: "0 < n \<Longrightarrow> 2 ^ (bit_length n - 1) \<le> n"
proof (induction n rule: bit_length.induct)
  case (1 n)
  show ?case
  proof (cases "n div 2 = 0")
    case True
    with 1(2) have "bit_length n = 1"
      by (subst bit_length.simps) (simp add: bit_length.simps)
    with 1(2) show ?thesis by simp
  next
    case False
    with 1 have ih: "2 ^ (bit_length (n div 2) - 1) \<le> n div 2" by simp
    from False have "0 < bit_length (n div 2)"
      by (subst bit_length.simps) simp
    then have "(2::nat) ^ bit_length (n div 2) = 2 * 2 ^ (bit_length (n div 2) - 1)"
      by (cases "bit_length (n div 2)") simp_all
    with ih have "2 ^ bit_length (n div 2) \<le> n" by linarith
    with 1(2) show ?thesis by (subst bit_length.simps) simp
  qed
qed

lemma bit_length_Suc_0 [simp]: "bit_length (Suc 0) = Suc 0"
  using bit_length_numeral(2) by simp

lemma bit_length_pos: "0 < n \<Longrightarrow> 0 < bit_length n"
  by (subst bit_length.simps) simp

lemma bit_length_le: "n < 2 ^ k \<Longrightarrow> bit_length n \<le> k"
proof (rule ccontr)
  assume n: "n < 2 ^ k" and "\<not> bit_length n \<le> k"
  then have k: "k \<le> bit_length n - 1" and pos: "0 < n"
    by (auto simp: bit_length.simps intro: ccontr)
  from k have "(2::nat) ^ k \<le> 2 ^ (bit_length n - 1)" by (rule power_increasing) simp
  also have "\<dots> \<le> n" using pos by (rule bit_length_ge)
  finally show False using n by simp
qed

lemma bit_length_double: "0 < n \<Longrightarrow> bit_length (2 * n) = Suc (bit_length n)"
  by (subst bit_length.simps) simp

lemma bit_length_shift: "0 < n \<Longrightarrow> bit_length (n * 2 ^ j) = bit_length n + j"
proof (induction j)
  case 0
  then show ?case by simp
next
  case (Suc j)
  then have "bit_length (2 * (n * 2 ^ j)) = Suc (bit_length (n * 2 ^ j))"
    by (intro bit_length_double) simp
  with Suc show ?case by (simp add: mult.commute mult.left_commute)
qed

lemma round_half_even_scale:
  assumes "0 < c"
  shows "round_half_even (a * c) (b * c) = round_half_even a b"
proof -
  have "(a * c) div (b * c) = a div b" using assms by simp
  moreover have "(a * c) mod (b * c) = (a mod b) * c" by simp
  moreover have "b * c < 2 * ((a mod b) * c) \<longleftrightarrow> b < 2 * (a mod b)"
    using assms by (simp add: mult.assoc [symmetric])
  moreover have "2 * ((a mod b) * c) = b * c \<longleftrightarrow> 2 * (a mod b) = b"
    using assms by (simp add: mult.assoc [symmetric])
  ultimately show ?thesis
    by (simp only: round_half_even_def Let_def)
qed

lemma round_ratio_scale:
  assumes "0 < q"
  shows "round_ratio s (p * 2 ^ j) (q * 2 ^ j) = round_ratio s p q"
proof (cases "p = 0")
  case True
  then show ?thesis by (simp add: round_ratio_def)
next
  case False
  then have p: "0 < p" by simp
  define d where "d = int (bit_length p) - int (bit_length q)"
  define e where "e = (if q * 2 ^ nat d \<le> p * 2 ^ nat (- d) then d else d - 1)"
  define x where "x = max (e - 52) (- 1074)"
  have d': "int (bit_length (p * 2 ^ j)) - int (bit_length (q * 2 ^ j)) = d"
    using p assms by (simp add: bit_length_shift d_def)
  have "q * 2 ^ j * 2 ^ nat d \<le> p * 2 ^ j * 2 ^ nat (- d) \<longleftrightarrow>
        q * 2 ^ nat d \<le> p * 2 ^ nat (- d)"
    by (simp add: mult.commute mult.left_commute)
  then have e': "(if q * 2 ^ j * 2 ^ nat d \<le> p * 2 ^ j * 2 ^ nat (- d) then d else d - 1) = e"
    by (simp only: e_def)
  have "round_half_even (p * 2 ^ j * 2 ^ nat (- x)) (q * 2 ^ j * 2 ^ nat x) =
        round_half_even (p * 2 ^ nat (- x) * 2 ^ j) (q * 2 ^ nat x * 2 ^ j)"
    by (simp add: ac_simps)
  also have "\<dots> = round_half_even (p * 2 ^ nat (- x)) (q * 2 ^ nat x)"
    by (rule round_half_even_scale) simp
  finally have m': "round_half_even (p * 2 ^ j * 2 ^ nat (- x)) (q * 2 ^ j * 2 ^ nat x) =
      round_half_even (p * 2 ^ nat (- x)) (q * 2 ^ nat x)" .
  have "p * 2 ^ j \<noteq> 0" using p by simp
  then show ?thesis
    unfolding round_ratio_def Let_def d' e' e_def [symmetric] d_def [symmetric]
      x_def [symmetric] m'
    using False by simp
qed

lemma double_of_int_0: "double_of_int 0 = Finite False 0 (- 1074)"
  by (simp add: double_of_int_def round_ratio_def)

lemma double_of_int_nat: "double_of_int (int k) = round_ratio False k 1"
  by (simp add: double_of_int_def)

lemma double_of_int_whole:
  assumes "k < 2 ^ 53"
  obtains m e where "double_of_int (int k) = Finite False m e" "e \<le> 0" "m = k * 2 ^ nat (- e)"
proof (cases "k = 0")
  case True
  show ?thesis
    by (rule that [of 0 "- 1074"]) (simp_all add: True double_of_int_0)
next
  case False
  then have k: "0 < k" by simp
  define l where "l = bit_length k"
  have l: "0 < l" "l \<le> 53" "2 ^ (l - 1) \<le> k" "k < 2 ^ l"
    unfolding l_def
    using bit_length_pos [OF k] bit_length_le [OF assms] bit_length_ge [OF k]
      bit_length_less [of k]
    by blast+
  have d: "int (bit_length k) - int (bit_length 1) = int l - 1"
    by (simp add: l_def)
  have nd: "nat (int l - 1) = l - 1" "nat (- (int l - 1)) = 0"
    using l by simp_all
  have x: "max (int l - 1 - 52) (- 1074) = int l - 53"
    using l by simp
  have nx: "nat (- (int l - 53)) = 53 - l" "nat (int l - 53) = 0"
    using l by simp_all
  have m: "round_half_even n (Suc 0) = n" for n
    by (simp add: round_half_even_def)
  have n53: "nat (53 - int l) = 53 - l"
    using l by simp
  have "k * 2 ^ (53 - l) < 2 ^ l * 2 ^ (53 - l)"
    using l by simp
  also have "\<dots> = 2 ^ 53"
    using l by (simp flip: power_add)
  finally have small: "k * 2 ^ (53 - l) \<noteq> 2 ^ 53" by simp
  have "double_of_int (int k) = Finite False (k * 2 ^ (53 - l)) (int l - 53)"
    unfolding double_of_int_nat round_ratio_def Let_def d nd x nx
    using k l small by (simp add: m n53)
  then show ?thesis
    by (rule that) (use l in \<open>simp_all add: n53\<close>)
qed

lemma round_dyadic_whole:
  assumes "g \<le> 0"
  shows "round_dyadic s (k * 2 ^ nat (- g)) g = round_ratio s k 1"
proof (cases "0 \<le> g")
  case True
  with assms have "g = 0" by simp
  then show ?thesis by (simp add: round_dyadic_def)
next
  case False
  have "round_ratio s (k * 2 ^ nat (- g)) (1 * 2 ^ nat (- g)) = round_ratio s k 1"
    by (rule round_ratio_scale) simp
  with False show ?thesis by (simp add: round_dyadic_def)
qed

lemma fadd_whole:
  assumes x: "x = Finite False m e" "e \<le> 0" "m = a * 2 ^ nat (- e)"
    and y: "y = Finite False n f" "f \<le> 0" "n = b * 2 ^ nat (- f)"
  shows "fadd x y = double_of_int (int (a + b))"
proof -
  define g where "g = min e f"
  have g: "g \<le> 0" "g \<le> e" "g \<le> f"
    using x(2) y(2) by (simp_all add: g_def)
  have "nat (- e) + nat (e - g) = nat (- g)" "nat (- f) + nat (f - g) = nat (- g)"
    using g x(2) y(2) by simp_all
  then have "m * 2 ^ nat (e - g) = a * 2 ^ nat (- g)" "n * 2 ^ nat (f - g) = b * 2 ^ nat (- g)"
    by (simp_all add: x(3) y(3) mult.assoc flip: power_add)
  then have "int m * 2 ^ nat (e - g) + int n * 2 ^ nat (f - g) =
      int (a * 2 ^ nat (- g) + b * 2 ^ nat (- g))"
    by (metis (no_types) of_nat_add of_nat_mult of_nat_numeral of_nat_power)
  then have sum: "with_sign False (int m * 2 ^ nat (e - g)) +
      with_sign False (int n * 2 ^ nat (f - g)) = int ((a + b) * 2 ^ nat (- g))"
    by (simp add: with_sign_def distrib_right)
  have unfold: "fadd x y =
      (if with_sign False (int m * 2 ^ nat (e - g)) + with_sign False (int n * 2 ^ nat (f - g)) = 0
       then Finite False 0 (- 1074)
       else round_dyadic
         (with_sign False (int m * 2 ^ nat (e - g)) +
          with_sign False (int n * 2 ^ nat (f - g)) < 0)
         (nat \<bar>with_sign False (int m * 2 ^ nat (e - g)) +
               with_sign False (int n * 2 ^ nat (f - g))\<bar>) g)"
    by (simp add: x(1) y(1) Let_def g_def)
  define K where "K = (a + b) * 2 ^ nat (- g)"
  show ?thesis
  proof (cases "a + b = 0")
    case True
    then have "int K = 0" by (simp add: K_def)
    then show ?thesis
      unfolding unfold sum K_def [symmetric] using True by (simp add: double_of_int_0)
  next
    case False
    then have "K \<noteq> 0" by (simp add: K_def)
    then have K: "int K \<noteq> 0" "\<not> int K < 0" "nat \<bar>int K\<bar> = K"
      by simp_all
    have "fadd x y = round_dyadic False K g"
      unfolding unfold sum K_def [symmetric] by (simp only: K if_False)
    also have "\<dots> = round_ratio False (a + b) 1"
      unfolding K_def using g(1) by (rule round_dyadic_whole)
    finally show ?thesis
      by (simp only: double_of_int_nat)
  qed
qed

lemma fadd_double_of_int:
  assumes "a < 2 ^ 53" "b < 2 ^ 53"
  shows "fadd (double_of_int (int a)) (double_of_int (int b)) = double_of_int (int (a + b))"
proof -
  from assms(1) obtain m e where
    x: "double_of_int (int a) = Finite False m e" "e \<le> 0" "m = a * 2 ^ nat (- e)"
    by (rule double_of_int_whole)
  from assms(2) obtain n f where
    y: "double_of_int (int b) = Finite False n f" "f \<le> 0" "n = b * 2 ^ nat (- f)"
    by (rule double_of_int_whole)
  from x y show ?thesis by (rule fadd_whole)
qed

lemma activities_loop_whole:
  "k + 50 * length acs < 2 ^ 53 \<Longrightarrow>
     activities_loop (double_of_int (int k)) acs =
       double_of_int (int (k + sum_list
         (map (\<lambda>t. if c_str (activity_type_field t) = ''virtual'' then 10 else 50) acs)))"
proof (induction acs arbitrary: k)
  case Nil
  then show ?case by simp
next
  case (Cons t ts)
  define w :: nat where "w = (if c_str (activity_type_field t) = ''virtual'' then 10 else 50)"
  have w: "w \<le> 50" "w < 2 ^ 53" by (simp_all add: w_def)
  have "calculate_activity_footprint (activity_of_tuple t) = double_of_int (int w)"
    by (simp add: activity_footprint_of_tuple w_def)
  moreover have "fadd (double_of_int (int k)) (double_of_int (int w)) = double_of_int (int (k + w))"
    using Cons.prems w by (intro fadd_double_of_int) simp_all
  moreover have "activities_loop (double_of_int (int (k + w))) ts =
      double_of_int (int (k + w + sum_list
        (map (\<lambda>t. if c_str (activity_type_field t) = ''virtual'' then 10 else 50) ts)))"
    using Cons.prems w by (intro Cons.IH) simp
  ultimately show ?case
    by (simp add: w_def add.assoc)
qed

lemma activities_only_total:
  assumes "50 * length acs < 2 ^ 53"
  shows "total_footprint [] acs =
     double_of_int (int (sum_list
       (map (\<lambda>t. if c_str (activity_type_field t) = ''virtual'' then 10 else 50) acs)))"
proof -
  have "total_footprint [] acs = activities_loop (double_of_int (int 0)) acs"
    by (simp add: total_footprint_def d_0_0_def double_of_int_0)
  also have "\<dots> = double_of_int (int (0 + sum_list
       (map (\<lambda>t. if c_str (activity_type_field t) = ''virtual'' then 10 else 50) acs)))"
    using assms by (intro activities_loop_whole) simp
  finally show ?thesis by simp
qed

text \<open>
  C3 (amended). When both reads succeed, the total the function computes, whose rendering
  it sends in the write, is the sum, taken from 0.0 on and from left to right, each
  addition rounded to a double, of the contributions of the attendee rows in the order
  fetched followed by the contributions of the activity rows in the order fetched. For
  an event without attendee rows (and fewer than \<open>2\<^sup>5\<^sup>3 / 50\<close> activity rows) every
  partial sum is exact, and two calls that fetch the same activity rows in different
  orders send the same write.
\<close>

theorem total_is_sum_in_fetch_order:
  "(\<not> refused w (SELECT_attendees e) \<and> \<not> refused w (SELECT_activities e) \<longrightarrow>
      sent (calculate_and_update_event_footprint w e) =
        sent w @ [SELECT_attendees e, SELECT_activities e,
          UPDATE_events (printf_f (foldl fadd d_0_0
            (map (\<lambda>t. calculate_attendee_footprint (attendee_of_tuple t)) (attendees_of w e) @
             map (\<lambda>t. calculate_activity_footprint (activity_of_tuple t)) (activities_of w e))))
            e]) \<and>
   (\<not> refused w (SELECT_attendees e) \<and> \<not> refused w (SELECT_activities e) \<and>
    \<not> refused w' (SELECT_attendees e) \<and> \<not> refused w' (SELECT_activities e) \<and>
    attendees_of w e = [] \<and> attendees_of w' e = [] \<and>
    mset (activities_of w e) = mset (activities_of w' e) \<and>
    50 * length (activities_of w e) < 2 ^ 53 \<longrightarrow>
      last (sent (calculate_and_update_event_footprint w e)) =
        last (sent (calculate_and_update_event_footprint w' e)))"
proof (intro conjI impI)
  assume "\<not> refused w (SELECT_attendees e) \<and> \<not> refused w (SELECT_activities e)"
  then show "sent (calculate_and_update_event_footprint w e) =
        sent w @ [SELECT_attendees e, SELECT_activities e,
          UPDATE_events (printf_f (foldl fadd d_0_0
            (map (\<lambda>t. calculate_attendee_footprint (attendee_of_tuple t)) (attendees_of w e) @
             map (\<lambda>t. calculate_activity_footprint (activity_of_tuple t)) (activities_of w e))))
            e]"
    by (simp add: run_sent total_footprint_def attendees_loop_foldl activities_loop_foldl)
next
  let ?w = "\<lambda>t. if c_str (activity_type_field t) = ''virtual'' then 10 else 50 :: nat"
  assume a: "\<not> refused w (SELECT_attendees e) \<and> \<not> refused w (SELECT_activities e) \<and>
    \<not> refused w' (SELECT_attendees e) \<and> \<not> refused w' (SELECT_activities e) \<and>
    attendees_of w e = [] \<and> attendees_of w' e = [] \<and>
    mset (activities_of w e) = mset (activities_of w' e) \<and>
    50 * length (activities_of w e) < 2 ^ 53"
  then have m: "mset (activities_of w e) = mset (activities_of w' e)"
    and l: "50 * length (activities_of w e) < 2 ^ 53" by simp_all
  from m have "length (activities_of w' e) = length (activities_of w e)" by (metis size_mset)
  with l have l': "50 * length (activities_of w' e) < 2 ^ 53" by simp
  from m have "mset (map ?w (activities_of w e)) = mset (map ?w (activities_of w' e))" by simp
  then have "sum_list (map ?w (activities_of w e)) = sum_list (map ?w (activities_of w' e))"
    by (metis sum_mset_sum_list)
  then have "total_footprint [] (activities_of w e) = total_footprint [] (activities_of w' e)"
    by (simp only: activities_only_total [OF l] activities_only_total [OF l'])
  with a show "last (sent (calculate_and_update_event_footprint w e)) =
        last (sent (calculate_and_update_event_footprint w' e))"
    by (simp add: run_sent)
qed

theorem total_is_sum_in_fetch_order_witness:
  "mset (activities_of (example_world []
      [(1, activity_row 1 ''virtual''), (1, activity_row 2 ''workshop'')] (\<lambda>st. False) True) 1) =
   mset (activities_of (example_world []
      [(1, activity_row 2 ''workshop''), (1, activity_row 1 ''virtual'')] (\<lambda>st. False) True) 1) \<and>
   activities_of (example_world []
      [(1, activity_row 1 ''virtual''), (1, activity_row 2 ''workshop'')] (\<lambda>st. False) True) 1 \<noteq>
   activities_of (example_world []
      [(1, activity_row 2 ''workshop''), (1, activity_row 1 ''virtual'')] (\<lambda>st. False) True) 1 \<and>
   last (sent (calculate_and_update_event_footprint (example_world []
      [(1, activity_row 1 ''virtual''), (1, activity_row 2 ''workshop'')] (\<lambda>st. False) True) 1)) =
   last (sent (calculate_and_update_event_footprint (example_world []
      [(1, activity_row 2 ''workshop''), (1, activity_row 1 ''virtual'')] (\<lambda>st. False) True) 1))"
  using total_is_sum_in_fetch_order
    [of "example_world [] [(1, activity_row 1 ''virtual''), (1, activity_row 2 ''workshop'')]
          (\<lambda>st. False) True" 1
        "example_world [] [(1, activity_row 2 ''workshop''), (1, activity_row 1 ''virtual'')]
          (\<lambda>st. False) True", THEN conjunct2]
  by (simp add: example_world_def attendees_of_def activities_of_def activity_row_def
      add.commute)

subsection \<open>The order of the attendee rows\<close>

lemma far_near_footprints:
  "calculate_attendee_footprint (attendee_of_tuple far) = Finite False 6000000000000000 2"
  "calculate_attendee_footprint (attendee_of_tuple (near i)) =
     Finite False 5404319552844595 (- 52)"
proof -
  have "round_ratio False 100000000000000000 1 = Finite False 6250000000000000 4"
    by (simp add: arith_defs)
  moreover
  have "fmul (Finite False 6250000000000000 4) (Finite False 8646911284551352 (- 55)) =
        Finite False 6000000000000000 2"
    by (simp add: arith_defs)
  ultimately show
    "calculate_attendee_footprint (attendee_of_tuple far) = Finite False 6000000000000000 2"
    by (simp add: far_def attendee_row_footprint constants del: fmul.simps)
  have "fmul (Finite False 5629499534213120 (- 50)) (Finite False 8646911284551352 (- 55)) =
        Finite False 5404319552844595 (- 52)"
    by (simp add: arith_defs)
  then show "calculate_attendee_footprint (attendee_of_tuple (near i)) =
     Finite False 5404319552844595 (- 52)"
    by (simp add: near_def attendee_row_footprint constants small_integers del: fmul.simps)
qed

lemma far_near_sums:
  "fadd (Finite False 0 (- 1074)) (Finite False 6000000000000000 2) =
     Finite False 6000000000000000 2"
  "fadd (Finite False 6000000000000000 2) (Finite False 5404319552844595 (- 52)) =
     Finite False 6000000000000000 2"
  "fadd (Finite False 0 (- 1074)) (Finite False 5404319552844595 (- 52)) =
     Finite False 5404319552844595 (- 52)"
  "fadd (Finite False 5404319552844595 (- 52)) (Finite False 5404319552844595 (- 52)) =
     Finite False 5404319552844595 (- 51)"
  "fadd (Finite False 5404319552844595 (- 51)) (Finite False 6000000000000000 2) =
     Finite False 6000000000000001 2"
  by (simp_all add: arith_defs)

lemma far_near_totals:
  "total_footprint [far, near 2, near 3] [] = Finite False 6000000000000000 2"
  "total_footprint [near 2, near 3, far] [] = Finite False 6000000000000001 2"
  "total_footprint [near 3, near 2, far] [] = Finite False 6000000000000001 2"
  by (simp_all add: total_footprint_def far_near_footprints far_near_sums d_0_0_def
      del: fadd.simps)

lemma far_near_renderings:
  "printf_f (Finite False 6000000000000000 2) = Fixed6 False 24000000000000000000000"
  "printf_f (Finite False 6000000000000001 2) = Fixed6 False 24000000000000004000000"
  by (simp_all add: round_half_even_def)

lemma far_near_texts:
  "show_f_text (Fixed6 False 24000000000000000000000) = ''24000000000000000.000000''"
  "show_f_text (Fixed6 False 24000000000000004000000) = ''24000000000000004.000000''"
  by (simp_all add: digits.simps)

lemma far_near_columns:
  "column_value (Fixed6 False 24000000000000000000000) =
     Some (Finite False 6000000000000000 2)"
  "column_value (Fixed6 False 24000000000000004000000) =
     Some (Finite False 6000000000000001 2)"
  by (simp_all add: arith_defs)

text \<open>
  C3 as stated fails: the order of the attendee rows can change the total. With one
  attendee \<open>10\<^sup>1\<^sup>7\<close> away and two attendees 5 away, all by car, the function writes
  24000000000000000.000000 when the far one is fetched first (each 1.2 is then lost to
  rounding) and 24000000000000004.000000 when it is fetched last, and these are the
  two values stored.
\<close>

theorem total_depends_on_fetch_order:
  "mset (attendees_of
     (example_world [(1, far), (1, near 2), (1, near 3)] [] (\<lambda>st. False) True) 1) =
   mset (attendees_of
     (example_world [(1, near 2), (1, near 3), (1, far)] [] (\<lambda>st. False) True) 1) \<and>
   last (sent (calculate_and_update_event_footprint
     (example_world [(1, far), (1, near 2), (1, near 3)] [] (\<lambda>st. False) True) 1)) =
     UPDATE_events (Fixed6 False 24000000000000000000000) 1 \<and>
   last (sent (calculate_and_update_event_footprint
     (example_world [(1, near 2), (1, near 3), (1, far)] [] (\<lambda>st. False) True) 1)) =
     UPDATE_events (Fixed6 False 24000000000000004000000) 1 \<and>
   show_f_text (Fixed6 False 24000000000000000000000) = ''24000000000000000.000000'' \<and>
   show_f_text (Fixed6 False 24000000000000004000000) = ''24000000000000004.000000'' \<and>
   events (calculate_and_update_event_footprint
     (example_world [(1, far), (1, near 2), (1, near 3)] [] (\<lambda>st. False) True) 1) 1 =
     Some \<lparr>carbon_footprint = Some (Finite False 6000000000000000 2),
           other_columns = ''Summit''\<rparr> \<and>
   events (calculate_and_update_event_footprint
     (example_world [(1, near 2), (1, near 3), (1, far)] [] (\<lambda>st. False) True) 1) 1 =
     Some \<lparr>carbon_footprint = Some (Finite False 6000000000000001 2),
           other_columns = ''Summit''\<rparr>"
  by (simp add: far_near_totals far_near_renderings far_near_texts far_near_columns
      run_events run_sent example_world_def attendees_of_def activities_of_def add.commute
      del: printf_f.simps column_value.simps show_f_text.simps)


text \<open>
  C7 as stated fails: the write is always sent when both reads succeed, but it does not
  always replace the stored value. When the server refuses the write the function only
  writes a line to the error stream; and with two attendees whose distances are the two
  infinities the total is a NaN, the text sent is \<open>-nan\<close>, and the server, which
  refuses nothing, cannot store it. In both cases the event row keeps the 5.0 it held.
\<close>

theorem write_can_leave_the_row:
  "\<not> refused (example_world [] [] (\<lambda>st. st = UPDATE_events (Fixed6 False 0) 1) True)
      (SELECT_attendees 1) \<and>
   \<not> refused (example_world [] [] (\<lambda>st. st = UPDATE_events (Fixed6 False 0) 1) True)
      (SELECT_activities 1) \<and>
   sent (calculate_and_update_event_footprint
     (example_world [] [] (\<lambda>st. st = UPDATE_events (Fixed6 False 0) 1) True) 1) =
     [SELECT_attendees 1, SELECT_activities 1, UPDATE_events (Fixed6 False 0) 1] \<and>
   stderr (calculate_and_update_event_footprint
     (example_world [] [] (\<lambda>st. st = UPDATE_events (Fixed6 False 0) 1) True) 1) =
     [''UPDATE event failed: ERROR'' @ [CHR 0x0A]] \<and>
   events (calculate_and_update_event_footprint
     (example_world [] [] (\<lambda>st. st = UPDATE_events (Fixed6 False 0) 1) True) 1) 1 =
     Some \<lparr>carbon_footprint = Some (double_of_int 5), other_columns = ''Summit''\<rparr> \<and>
   total_footprint
     (attendees_of (example_world [(1, endless), (1, endless_back)] [] (\<lambda>st. False) True) 1)
     (activities_of (example_world [(1, endless), (1, endless_back)] [] (\<lambda>st. False) True) 1) =
     NaN True \<and>
   sent (calculate_and_update_event_footprint
     (example_world [(1, endless), (1, endless_back)] [] (\<lambda>st. False) True) 1) =
     [SELECT_attendees 1, SELECT_activities 1, UPDATE_events (Nan_text True) 1] \<and>
   query (UPDATE_events (Nan_text True) 1) =
     ''UPDATE events SET carbon_footprint = -nan WHERE id = 1'' \<and>
   events (calculate_and_update_event_footprint
     (example_world [(1, endless), (1, endless_back)] [] (\<lambda>st. False) True) 1) 1 =
     Some \<lparr>carbon_footprint = Some (double_of_int 5), other_columns = ''Summit''\<rparr>"
proof -
  let ?a = "example_world [] [] (\<lambda>st. st = UPDATE_events (Fixed6 False 0) 1) True"
  let ?b = "example_world [(1, endless), (1, endless_back)] [] (\<lambda>st. False) True"
  have a: "\<not> refused ?a (SELECT_attendees 1)" "\<not> refused ?a (SELECT_activities 1)"
    "total_footprint (attendees_of ?a 1) (activities_of ?a 1) = d_0_0"
    "refused ?a (UPDATE_events (Fixed6 False 0) 1)" "sent ?a = []" "stderr ?a = []"
    "diagnostic ?a = (\<lambda>st. ''ERROR'')"
    "events ?a 1 =
       Some \<lparr>carbon_footprint = Some (double_of_int 5), other_columns = ''Summit''\<rparr>"
    by (simp_all add: example_world_def attendees_of_def activities_of_def total_footprint_def)
  have zero: "printf_f d_0_0 = Fixed6 False 0"
    by (simp add: d_0_0_def round_half_even_def)
  have ra: "calculate_and_update_event_footprint ?a 1 =
      ?a\<lparr>sent := [SELECT_attendees 1, SELECT_activities 1, UPDATE_events (Fixed6 False 0) 1],
         PQerrorMessage := ''ERROR'',
         stderr := [''UPDATE event failed: ERROR'' @ [CHR 0x0A]]\<rparr>"
    using run_write_failed [of ?a 1] by (simp add: a zero)
  have b: "\<not> refused ?b (SELECT_attendees 1)" "\<not> refused ?b (SELECT_activities 1)"
    "sent ?b = []"
    "events ?b 1 =
       Some \<lparr>carbon_footprint = Some (double_of_int 5), other_columns = ''Summit''\<rparr>"
    by (simp_all add: example_world_def)
  have tb: "total_footprint (attendees_of ?b 1) (activities_of ?b 1) = NaN True"
    by (simp add: example_world_def attendees_of_def activities_of_def total_footprint_def
        endless_def endless_back_def attendee_row_footprint constants d_0_0_def)
  have sb: "sent (calculate_and_update_event_footprint ?b 1) =
      [SELECT_attendees 1, SELECT_activities 1, UPDATE_events (Nan_text True) 1]"
    by (simp add: run_sent b tb)
  have eb: "events (calculate_and_update_event_footprint ?b 1) = events ?b"
    by (simp add: run_events b tb)
  have q: "query (UPDATE_events (Nan_text True) 1) =
      ''UPDATE events SET carbon_footprint = -nan WHERE id = 1''"
    by (simp add: printf_d_def digits.simps)
  from a(1,2,8) ra tb sb eb b(4) q show ?thesis
    by simp
qed

text \<open>
  C10 as stated fails for a total that is not finite: with one attendee whose distance
  is infinite the total is infinite and the write carries the text \<open>inf\<close>, which has
  no fractional digit and is not a rounding of the total; the stored
  \<open>carbon_footprint\<close> stays the 5.0 it was.
\<close>

theorem stored_total_counterexample:
  "total_footprint
     (attendees_of (example_world [(1, endless)] [] (\<lambda>st. False) True) 1)
     (activities_of (example_world [(1, endless)] [] (\<lambda>st. False) True) 1) = Infinity False \<and>
   sent (calculate_and_update_event_footprint
     (example_world [(1, endless)] [] (\<lambda>st. False) True) 1) =
     [SELECT_attendees 1, SELECT_activities 1, UPDATE_events (Inf_text False) 1] \<and>
   query (UPDATE_events (Inf_text False) 1) =
     ''UPDATE events SET carbon_footprint = inf WHERE id = 1'' \<and>
   events (example_world [(1, endless)] [] (\<lambda>st. False) True) 1 =
     Some \<lparr>carbon_footprint = Some (double_of_int 5), other_columns = ''Summit''\<rparr> \<and>
   events (calculate_and_update_event_footprint
     (example_world [(1, endless)] [] (\<lambda>st. False) True) 1) 1 =
     Some \<lparr>carbon_footprint = Some (double_of_int 5), other_columns = ''Summit''\<rparr>"
proof -
  let ?w = "example_world [(1, endless)] [] (\<lambda>st. False) True"
  have t: "total_footprint (attendees_of ?w 1) (activities_of ?w 1) = Infinity False"
    by (simp add: example_world_def attendees_of_def activities_of_def total_footprint_def
        endless_def attendee_row_footprint constants d_0_0_def)
  have r: "\<not> refused ?w (SELECT_attendees 1)" "\<not> refused ?w (SELECT_activities 1)"
    "sent ?w = []"
    "events ?w 1 =
       Some \<lparr>carbon_footprint = Some (double_of_int 5), other_columns = ''Summit''\<rparr>"
    by (simp_all add: example_world_def)
  have s: "sent (calculate_and_update_event_footprint ?w 1) =
      [SELECT_attendees 1, SELECT_activities 1, UPDATE_events (Inf_text False) 1]"
    by (simp add: run_sent r t)
  have e: "events (calculate_and_update_event_footprint ?w 1) = events ?w"
    by (simp add: run_events r t)
  have q: "query (UPDATE_events (Inf_text False) 1) =
      ''UPDATE events SET carbon_footprint = inf WHERE id = 1''"
    by (simp add: printf_d_def digits.simps)
  from t s e r(4) q show ?thesis
    by simp
qed

end
